theory Spec2Isabelle
  imports Complex_Main "HOL-Library.Word"
begin

unbundle bit_operations_syntax

section \<open>Data model\<close>

text \<open>
  Go strings are byte sequences; a \<open>string\<close> here is the list of those bytes.
  \<open>color.NRGBA\<close> is a struct of four \<open>uint8\<close> channels, and \<open>colorDefs\<close> is
  \<open>map[string]color.Color\<close>, whose values in this program are always \<open>color.NRGBA\<close>.
\<close>

record NRGBA =
  R :: "8 word"
  G :: "8 word"
  B :: "8 word"
  A :: "8 word"

type_synonym colorDefs = "string \<rightharpoonup> NRGBA"

text \<open>\<open>colorDef\<close>: one \<open>color\<close> element of a colors file, its \<open>name\<close> attribute and its text.\<close>

record colorDef =
  Name :: string
  Color :: string

text \<open>
  The errors the program builds, one constructor for each \<open>fmt.Errorf\<close> format of the source,
  and the range error of \<open>strconv.ParseFloat\<close>, which \<open>parseDpNum\<close> passes on unchanged.
\<close>

datatype error =
    InvalidColor string
  | InvalidDimension string string
  | InvalidColorDefinition string
  | ParseFloatRange string

definition quoted :: "string \<Rightarrow> string" where
  "quoted s = [CHR 0x22] @ s @ [CHR 0x22]"

fun errorMessage :: "error \<Rightarrow> string" where
  "errorMessage (InvalidColor c) = ''Invalid color '' @ quoted c"
| "errorMessage (InvalidDimension name n) = ''Invalid '' @ name @ '' '' @ quoted n"
| "errorMessage (InvalidColorDefinition v) = ''Invalid color definition '' @ quoted v"
| "errorMessage (ParseFloatRange s) =
     ''strconv.ParseFloat: parsing '' @ quoted s @ '': value out of range''"

section \<open>Color parser\<close>

definition byte :: "char \<Rightarrow> 8 word" where
  "byte c = of_char c"

text \<open>The character class \<open>[0-9a-fA-F]\<close> of \<open>colorPattern\<close>.\<close>

definition isHexDigit :: "char \<Rightarrow> bool" where
  "isHexDigit c =
     ((byte (CHR ''0'') \<le> byte c \<and> byte c \<le> byte (CHR ''9''))
      \<or> (byte (CHR ''a'') \<le> byte c \<and> byte c \<le> byte (CHR ''f''))
      \<or> (byte (CHR ''A'') \<le> byte c \<and> byte c \<le> byte (CHR ''F'')))"

text \<open>
  \<open>colorPattern.FindSubmatch\<close> for the pattern \<open>^#([0-9a-fA-F]{3,8})$\<close>: the whole text is
  \<open>#\<close> followed by three to eight hexadecimal digits (in Go \<open>$\<close> is the end of the text).
  The result is the first group, \<open>match[1]\<close>.
\<close>

definition colorPattern_FindSubmatch :: "string \<Rightarrow> string option" where
  "colorPattern_FindSubmatch c =
     (case c of
        [] \<Rightarrow> None
      | h # spec \<Rightarrow>
          if h = CHR ''#'' \<and> 3 \<le> length spec \<and> length spec \<le> 8 \<and> list_all isHexDigit spec
          then Some spec else None)"

definition hexToValue :: "char \<Rightarrow> 8 word" where
  "hexToValue n =
     (if byte n \<ge> byte (CHR ''0'') \<and> byte n \<le> byte (CHR ''9'') then byte n - byte (CHR ''0'')
      else if byte n \<ge> byte (CHR ''a'') \<and> byte n \<le> byte (CHR ''f'') then byte n - byte (CHR ''a'') + 10
      else if byte n \<ge> byte (CHR ''A'') \<and> byte n \<le> byte (CHR ''F'') then byte n - byte (CHR ''A'') + 10
      else 0)"

definition shl4_or :: "8 word \<Rightarrow> 8 word \<Rightarrow> 8 word" where
  "shl4_or x y = push_bit 4 x OR y"

definition parseColor :: "string \<Rightarrow> colorDefs \<Rightarrow> error + NRGBA" where
  "parseColor c colorDefs =
     (case colorDefs c of
        Some color \<Rightarrow> Inr color
      | None \<Rightarrow>
         (case colorPattern_FindSubmatch c of
            None \<Rightarrow> Inl (InvalidColor c)
          | Some spec \<Rightarrow>
              if length spec = 3 then
                (let r = hexToValue (spec ! 0); g = hexToValue (spec ! 1); b = hexToValue (spec ! 2)
                 in Inr \<lparr>R = shl4_or r r, G = shl4_or g g, B = shl4_or b b, A = 255\<rparr>)
              else if length spec = 4 then
                (let a = hexToValue (spec ! 0); r = hexToValue (spec ! 1);
                     g = hexToValue (spec ! 2); b = hexToValue (spec ! 3)
                 in Inr \<lparr>R = shl4_or r r, G = shl4_or g g, B = shl4_or b b, A = shl4_or a a\<rparr>)
              else if length spec = 6 then
                (let r1 = hexToValue (spec ! 0); r2 = hexToValue (spec ! 1);
                     g1 = hexToValue (spec ! 2); g2 = hexToValue (spec ! 3);
                     b1 = hexToValue (spec ! 4); b2 = hexToValue (spec ! 5)
                 in Inr \<lparr>R = shl4_or r1 r2, G = shl4_or g1 g2, B = shl4_or b1 b2, A = 255\<rparr>)
              else if length spec = 8 then
                (let a1 = hexToValue (spec ! 0); a2 = hexToValue (spec ! 1);
                     r1 = hexToValue (spec ! 2); r2 = hexToValue (spec ! 3);
                     g1 = hexToValue (spec ! 4); g2 = hexToValue (spec ! 5);
                     b1 = hexToValue (spec ! 6); b2 = hexToValue (spec ! 7)
                 in Inr \<lparr>R = shl4_or r1 r2, G = shl4_or g1 g2, B = shl4_or b1 b2, A = shl4_or a1 a2\<rparr>)
              else Inl (InvalidColor c)))"

subsection \<open>The reference mapping of the specification\<close>

text \<open>
  The color parser as the specification words it: a key of the table gives the cached value;
  otherwise \<open>#\<close> followed by 3, 4, 6 or 8 hexadecimal digits gives the channels (a single digit
  \<open>d\<close> duplicated is \<open>17 * d\<close>, a pair \<open>d1 d2\<close> is \<open>16 * d1 + d2\<close>); anything else is
  \<open>InvalidColor\<close> naming the text.
\<close>

definition hexDigitValue :: "char \<Rightarrow> nat option" where
  "hexDigitValue c =
     map_of (zip ''0123456789abcdef'' [0..<16] @ zip ''ABCDEF'' [10..<16]) c"

fun digitValues :: "string \<Rightarrow> nat list option" where
  "digitValues [] = Some []"
| "digitValues (c # cs) =
     (case hexDigitValue c of
        None \<Rightarrow> None
      | Some d \<Rightarrow> (case digitValues cs of None \<Rightarrow> None | Some ds \<Rightarrow> Some (d # ds)))"

definition dup :: "nat \<Rightarrow> 8 word" where
  "dup d = of_nat (17 * d)"

definition pair :: "nat \<Rightarrow> nat \<Rightarrow> 8 word" where
  "pair d1 d2 = of_nat (16 * d1 + d2)"

fun channels :: "nat list \<Rightarrow> NRGBA option" where
  "channels [r, g, b] = Some \<lparr>R = dup r, G = dup g, B = dup b, A = 255\<rparr>"
| "channels [a, r, g, b] = Some \<lparr>R = dup r, G = dup g, B = dup b, A = dup a\<rparr>"
| "channels [r1, r2, g1, g2, b1, b2] =
     Some \<lparr>R = pair r1 r2, G = pair g1 g2, B = pair b1 b2, A = 255\<rparr>"
| "channels [a1, a2, r1, r2, g1, g2, b1, b2] =
     Some \<lparr>R = pair r1 r2, G = pair g1 g2, B = pair b1 b2, A = pair a1 a2\<rparr>"
| "channels _ = None"

definition parseColorRef :: "string \<Rightarrow> colorDefs \<Rightarrow> error + NRGBA" where
  "parseColorRef c table =
     (case table c of
        Some v \<Rightarrow> Inr v
      | None \<Rightarrow>
         (case c of
            [] \<Rightarrow> Inl (InvalidColor c)
          | h # ds \<Rightarrow>
              if h = CHR ''#'' then
                (case digitValues ds of
                   None \<Rightarrow> Inl (InvalidColor c)
                 | Some vs \<Rightarrow> (case channels vs of None \<Rightarrow> Inl (InvalidColor c) | Some v \<Rightarrow> Inr v))
              else Inl (InvalidColor c)))"

section \<open>Resolution of a colors file\<close>

text \<open>
  The inner \<open>for _, colorDef := range colors\<close> of \<open>parseColorsFile\<close>: a definition that
  parses is stored under \<open>"@color/" + Name\<close>, one that does not is appended to
  \<open>remainingColors\<close>. The range runs over the slice as it is at the start of the pass; the
  appends land behind its last element, so they do not change what the pass reads.
\<close>

fun colorsPass :: "colorDef list \<Rightarrow> colorDefs \<Rightarrow> colorDef list \<Rightarrow> colorDefs \<times> colorDef list" where
  "colorsPass [] colorDefs remainingColors = (colorDefs, remainingColors)"
| "colorsPass (cd # rest) colorDefs remainingColors =
     (case parseColor (Color cd) colorDefs of
        Inr color \<Rightarrow> colorsPass rest (colorDefs(''@color/'' @ Name cd \<mapsto> color)) remainingColors
      | Inl err \<Rightarrow> colorsPass rest colorDefs (remainingColors @ [cd]))"

text \<open>
  The outer \<open>for true\<close>. \<open>remainingColors\<close> is declared before the loop and is never emptied,
  so it is part of the loop state. The loop has no bound: a run that never reaches
  \<open>break\<close> is the value \<open>None\<close>.
\<close>

definition loopBreak :: "colorDef list \<Rightarrow> colorDef list \<Rightarrow> bool" where
  "loopBreak colors remainingColors =
     (length remainingColors = 0 \<or> length colors = length remainingColors)"

partial_function (option) resolveLoop ::
  "colorDef list \<Rightarrow> colorDef list \<Rightarrow> colorDefs \<Rightarrow> colorDefs option" where
  "resolveLoop colors remainingColors colorDefs =
     (case colorsPass colors colorDefs remainingColors of
        (colorDefs', remainingColors') \<Rightarrow>
          if loopBreak colors remainingColors' then Some colorDefs'
          else resolveLoop remainingColors' remainingColors' colorDefs')"

text \<open>\<open>parseColorsFile\<close> once the file is read and unmarshalled into \<open>colorsArray.Colors\<close>.\<close>

definition resolveColors :: "colorDef list \<Rightarrow> colorDefs \<Rightarrow> colorDefs option" where
  "resolveColors colors colorDefs = resolveLoop colors [] colorDefs"

text \<open>
  The states in which a pass of the loop starts: the first pass starts with the definitions
  of the file, an empty \<open>remainingColors\<close> and the table as the caller passed it; a pass that
  does not reach \<open>break\<close> is followed by one over \<open>colors = remainingColors\<close>.
\<close>

inductive passStart ::
  "colorDef list \<Rightarrow> colorDefs \<Rightarrow> colorDef list \<Rightarrow> colorDef list \<Rightarrow> colorDefs \<Rightarrow> bool"
  for entries :: "colorDef list" and colorDefs0 :: colorDefs where
  first: "passStart entries colorDefs0 entries [] colorDefs0"
| later: "passStart entries colorDefs0 colors remainingColors colorDefs \<Longrightarrow>
          colorsPass colors colorDefs remainingColors = (colorDefs', remainingColors') \<Longrightarrow>
          \<not> loopBreak colors remainingColors' \<Longrightarrow>
          passStart entries colorDefs0 remainingColors' remainingColors' colorDefs'"

section \<open>Dimension parser\<close>

text \<open>The class \<open>\d\<close> of \<open>dpNumPattern\<close>: the ASCII digits.\<close>

definition isDigit :: "char \<Rightarrow> bool" where
  "isDigit c = (byte (CHR ''0'') \<le> byte c \<and> byte c \<le> byte (CHR ''9''))"

text \<open>
  \<open>dpNumPattern\<close> is \<open>(\d+)dp\<close>, with no anchors. A match that starts at the head of \<open>s\<close> is
  a run of digits, at least one, followed by \<open>dp\<close>; \<open>\d+\<close> is greedy and the run must be the
  longest one, since a shorter run is followed by a digit and not by \<open>d\<close>.
  \<open>FindStringSubmatch\<close> returns the leftmost match: it tries the start positions from left to
  right. The result is the first group, \<open>match[1]\<close>.
\<close>

definition dpNumPattern_matchHere :: "string \<Rightarrow> string option" where
  "dpNumPattern_matchHere s =
     (let digits = takeWhile isDigit s; rest = dropWhile isDigit s
      in if digits \<noteq> [] \<and> take 2 rest = ''dp'' then Some digits else None)"

fun dpNumPattern_FindStringSubmatch :: "string \<Rightarrow> string option" where
  "dpNumPattern_FindStringSubmatch [] = None"
| "dpNumPattern_FindStringSubmatch (c # cs) =
     (case dpNumPattern_matchHere (c # cs) of
        Some digits \<Rightarrow> Some digits
      | None \<Rightarrow> dpNumPattern_FindStringSubmatch cs)"

text \<open>
  \<open>strconv.ParseFloat(s, 32)\<close> on a string of digits: the decimal value, rounded to the
  nearest number with 24 significant bits (ties to the even one), as a \<open>float64\<close>; a value
  that rounds to \<open>2 ^ 128\<close> or more is the error \<open>ErrRange\<close>. The result is a whole number,
  so the \<open>float64\<close> is given by the natural number it equals.
\<close>

definition decimalValue :: "string \<Rightarrow> nat" where
  "decimalValue digits = foldl (\<lambda>acc c. 10 * acc + (of_char c - 48)) 0 digits"

fun bitlen :: "nat \<Rightarrow> nat" where
  "bitlen n = (if n = 0 then 0 else Suc (bitlen (n div 2)))"

declare bitlen.simps [simp del]

definition roundFloat32 :: "nat \<Rightarrow> nat" where
  "roundFloat32 n =
     (if bitlen n \<le> 24 then n
      else
        (let shift = bitlen n - 24;
             q = n div 2 ^ shift;
             r = n mod 2 ^ shift;
             half = 2 ^ (shift - 1);
             q' = (if half < r \<or> (r = half \<and> odd q) then q + 1 else q)
         in q' * 2 ^ shift))"

definition ParseFloat32 :: "string \<Rightarrow> error + nat" where
  "ParseFloat32 digits =
     (let f = roundFloat32 (decimalValue digits)
      in if f < 2 ^ 128 then Inr f else Inl (ParseFloatRange digits))"

definition parseDpNum :: "string \<Rightarrow> string \<Rightarrow> error + nat" where
  "parseDpNum n name =
     (case dpNumPattern_FindStringSubmatch n of
        None \<Rightarrow> Inl (InvalidDimension name n)
      | Some digits \<Rightarrow>
          (case ParseFloat32 digits of
             Inl err \<Rightarrow> Inl err
           | Inr width \<Rightarrow> Inr width))"

section \<open>The \<open>-color\<close> flag\<close>

text \<open>The empty table: \<open>make(colorDefs)\<close> in \<open>main\<close>, and the \<open>nil\<close> map that \<open>Set\<close> passes.\<close>

definition noColorDefs :: colorDefs where
  "noColorDefs = Map.empty"

text \<open>\<open>strings.SplitN(value, "=", 2)\<close>: cut at the first \<open>=\<close>, if there is one.\<close>

definition SplitN_eq_2 :: "string \<Rightarrow> string list" where
  "SplitN_eq_2 s =
     (if CHR ''='' \<in> set s
      then [takeWhile (\<lambda>c. c \<noteq> CHR ''='') s, drop 1 (dropWhile (\<lambda>c. c \<noteq> CHR ''='') s)]
      else [s])"

text \<open>
  \<open>strings.TrimSpace\<close> removes leading and trailing white space as \<open>unicode.IsSpace\<close> defines
  it. On the bytes of the string these are the six ASCII characters and the UTF-8 encodings of
  U+0085, U+00A0, U+1680, U+2000 to U+200A, U+2028, U+2029, U+202F, U+205F and U+3000.
\<close>

definition isAsciiSpace :: "char \<Rightarrow> bool" where
  "isAsciiSpace c = (c \<in> set [CHR 0x09, CHR 0x0A, CHR 0x0B, CHR 0x0C, CHR 0x0D, CHR 0x20])"

definition space2 :: "string list" where
  "space2 = [[CHR 0xC2, CHR 0x85], [CHR 0xC2, CHR 0xA0]]"

definition space3 :: "string list" where
  "space3 =
     [[CHR 0xE1, CHR 0x9A, CHR 0x80],
      [CHR 0xE2, CHR 0x80, CHR 0x80], [CHR 0xE2, CHR 0x80, CHR 0x81], [CHR 0xE2, CHR 0x80, CHR 0x82],
      [CHR 0xE2, CHR 0x80, CHR 0x83], [CHR 0xE2, CHR 0x80, CHR 0x84], [CHR 0xE2, CHR 0x80, CHR 0x85],
      [CHR 0xE2, CHR 0x80, CHR 0x86], [CHR 0xE2, CHR 0x80, CHR 0x87], [CHR 0xE2, CHR 0x80, CHR 0x88],
      [CHR 0xE2, CHR 0x80, CHR 0x89], [CHR 0xE2, CHR 0x80, CHR 0x8A],
      [CHR 0xE2, CHR 0x80, CHR 0xA8], [CHR 0xE2, CHR 0x80, CHR 0xA9], [CHR 0xE2, CHR 0x80, CHR 0xAF],
      [CHR 0xE2, CHR 0x81, CHR 0x9F], [CHR 0xE3, CHR 0x80, CHR 0x80]]"

fun TrimLeftSpace :: "string \<Rightarrow> string" where
  "TrimLeftSpace [] = []"
| "TrimLeftSpace (c # cs) =
     (if isAsciiSpace c then TrimLeftSpace cs
      else if take 2 (c # cs) \<in> set space2 then TrimLeftSpace (drop 1 cs)
      else if take 3 (c # cs) \<in> set space3 then TrimLeftSpace (drop 2 cs)
      else c # cs)"

text \<open>The same from the end, on the reversed string.\<close>

fun TrimLeftSpaceRev :: "string \<Rightarrow> string" where
  "TrimLeftSpaceRev [] = []"
| "TrimLeftSpaceRev (c # cs) =
     (if isAsciiSpace c then TrimLeftSpaceRev cs
      else if rev (take 2 (c # cs)) \<in> set space2 then TrimLeftSpaceRev (drop 1 cs)
      else if rev (take 3 (c # cs)) \<in> set space3 then TrimLeftSpaceRev (drop 2 cs)
      else c # cs)"

definition TrimSpace :: "string \<Rightarrow> string" where
  "TrimSpace s = rev (TrimLeftSpaceRev (rev (TrimLeftSpace s)))"

definition colorDefs_Set :: "string \<Rightarrow> colorDefs \<Rightarrow> error + colorDefs" where
  "colorDefs_Set v cd =
     (let parts = SplitN_eq_2 v
      in if length parts \<noteq> 2 then Inl (InvalidColorDefinition v)
         else
           (case parseColor (TrimSpace (parts ! 1)) noColorDefs of
              Inl err \<Rightarrow> Inl (InvalidColorDefinition v)
            | Inr color \<Rightarrow> Inr (cd(TrimSpace (parts ! 0) \<mapsto> color))))"

text \<open>The flags of a command line in order, as \<open>flag.Parse\<close> hands them to \<open>Set\<close>: the first error ends the parse.\<close>

fun colorFlags :: "string list \<Rightarrow> colorDefs \<Rightarrow> error + colorDefs" where
  "colorFlags [] cd = Inr cd"
| "colorFlags (v # vs) cd =
     (case colorDefs_Set v cd of Inl err \<Rightarrow> Inl err | Inr cd' \<Rightarrow> colorFlags vs cd')"

section \<open>Output paths\<close>

text \<open>\<open>os.IsPathSeparator\<close> depends on the target system; the Makefile builds for both.\<close>

datatype goos = Unix | Windows

fun IsPathSeparator :: "goos \<Rightarrow> char \<Rightarrow> bool" where
  "IsPathSeparator Unix c = (c = CHR ''/'')"
| "IsPathSeparator Windows c = (c = CHR 0x5C \<or> c = CHR ''/'')"

text \<open>
  \<open>filepath.Ext\<close>: scan from the last byte towards the first, stop at a path separator, and
  return the text from the first dot met. The scan runs on the reversed path; \<open>seen\<close> is the
  part already passed, in its original order.
\<close>

fun Ext_scan :: "goos \<Rightarrow> string \<Rightarrow> string \<Rightarrow> string" where
  "Ext_scan os [] seen = []"
| "Ext_scan os (c # before) seen =
     (if IsPathSeparator os c then []
      else if c = CHR ''.'' then c # seen
      else Ext_scan os before (c # seen))"

definition Ext :: "goos \<Rightarrow> string \<Rightarrow> string" where
  "Ext os path = Ext_scan os (rev path) []"

definition HasSuffix :: "string \<Rightarrow> string \<Rightarrow> bool" where
  "HasSuffix s suffix = (length suffix \<le> length s \<and> drop (length s - length suffix) s = suffix)"

definition TrimSuffix :: "string \<Rightarrow> string \<Rightarrow> string" where
  "TrimSuffix s suffix = (if HasSuffix s suffix then take (length s - length suffix) s else s)"

definition pathWithoutExtension :: "goos \<Rightarrow> string \<Rightarrow> string" where
  "pathWithoutExtension os p = TrimSuffix p (Ext os p)"

section \<open>Rendering\<close>

text \<open>
  The vector drawable as \<open>xml.Unmarshal\<close> fills it in. \<open>float64\<close> values are kept abstract:
  \<open>'f\<close> is their type, and the operations the program uses on them are fields of the
  environment below.
\<close>

record 'f vectorPath =
  FillColor :: string
  StrokeColor :: string
  StrokeWidth :: 'f
  PathData :: string

record 'f vector =
  XMLName_Local :: string
  Width :: string
  Height :: string
  ViewportWidth :: 'f
  ViewportHeight :: 'f
  Paths :: "'f vectorPath list"

text \<open>
  The four coordinate systems of the canvas library, named after the quadrants of the plane.
  The library documents where each has its zero point: \<open>CartesianI\<close> bottom-left (the
  default), \<open>CartesianII\<close> bottom-right, \<open>CartesianIII\<close> top-right and \<open>CartesianIV\<close>
  top-left; in the fourth quadrant the y-axis points down.
\<close>

datatype CoordSystem = CartesianI | CartesianII | CartesianIII | CartesianIV

datatype corner = BottomLeft | BottomRight | TopRight | TopLeft

datatype direction = Up | Down

fun zeroPoint :: "CoordSystem \<Rightarrow> corner" where
  "zeroPoint CartesianI = BottomLeft"
| "zeroPoint CartesianII = BottomRight"
| "zeroPoint CartesianIII = TopRight"
| "zeroPoint CartesianIV = TopLeft"

fun yAxis :: "CoordSystem \<Rightarrow> direction" where
  "yAxis CartesianI = Up"
| "yAxis CartesianII = Up"
| "yAxis CartesianIII = Down"
| "yAxis CartesianIV = Down"

text \<open>
  A color handed to the context: \<open>canvas.Transparent\<close> or a parsed \<open>color.NRGBA\<close>.
  The calls on the \<open>canvas.Context\<close> are recorded in order; \<open>SetView sx sy\<close> stands for
  \<open>ctx.SetView(canvas.Identity.Scale(sx, sy))\<close>.
\<close>

datatype paint = Transparent | Solid NRGBA

datatype ('f, 'p) drawOp =
    SetCoordSystem CoordSystem
  | SetView 'f 'f
  | SetFillColor paint
  | SetStrokeColor paint
  | SetStrokeWidth 'f
  | DrawPath 'f 'f 'p

record ('f, 'p) canvas =
  W :: 'f
  H :: 'f
  drawn :: "('f, 'p) drawOp list"

text \<open>
  What the program gets from outside: the file system, the XML decoder, the canvas library
  and the \<open>float64\<close> arithmetic. An \<open>Inl\<close> or \<open>Some\<close> result is the text of the error returned.
\<close>

record ('f, 'p) env =
  GOOS :: goos
  progName :: string
  ReadFile :: "string \<Rightarrow> string + string"
  UnmarshalVector :: "string \<Rightarrow> string + 'f vector"
  UnmarshalColors :: "string \<Rightarrow> string + colorDef list"
  ParseSVGPath :: "string \<Rightarrow> string + 'p"
  renderers_Write :: "string \<Rightarrow> ('f, 'p) canvas \<Rightarrow> 'f \<Rightarrow> string option"
  ParseFloat64 :: "string \<Rightarrow> 'f option"
  float64 :: "nat \<Rightarrow> 'f"
  fdiv :: "'f \<Rightarrow> 'f \<Rightarrow> 'f"
  fmul :: "'f \<Rightarrow> 'f \<Rightarrow> 'f"

text \<open>A Go call either returns or panics; \<open>canvas.MustParseSVGPath\<close> panics with the parse error.\<close>

datatype 'a go_result = Returned 'a | Panicked string

text \<open>The \<open>for _, pathElem := range vec.Paths\<close> of \<open>renderVector\<close>; \<open>ctx\<close> is the list of calls made so far.\<close>

fun drawPaths ::
  "('f, 'p) env \<Rightarrow> colorDefs \<Rightarrow> 'f vectorPath list \<Rightarrow> ('f, 'p) drawOp list
     \<Rightarrow> (error + ('f, 'p) drawOp list) go_result" where
  "drawPaths env colorDefs [] ctx = Returned (Inr ctx)"
| "drawPaths env colorDefs (pathElem # rest) ctx =
     (case ParseSVGPath env (PathData pathElem) of
        Inl perr \<Rightarrow> Panicked perr
      | Inr path \<Rightarrow>
          (let ctx1 = ctx @ [SetFillColor Transparent, SetStrokeColor Transparent,
                             SetStrokeWidth (StrokeWidth pathElem)]
           in case (if FillColor pathElem \<noteq> []
                    then (case parseColor (FillColor pathElem) colorDefs of
                            Inl err \<Rightarrow> Inl err
                          | Inr c \<Rightarrow> Inr (ctx1 @ [SetFillColor (Solid c)]))
                    else Inr ctx1) of
                Inl err \<Rightarrow> Returned (Inl err)
              | Inr ctx2 \<Rightarrow>
                  (case (if StrokeColor pathElem \<noteq> []
                         then (case parseColor (StrokeColor pathElem) colorDefs of
                                 Inl err \<Rightarrow> Inl err
                               | Inr c \<Rightarrow> Inr (ctx2 @ [SetStrokeColor (Solid c)]))
                         else Inr ctx2) of
                     Inl err \<Rightarrow> Returned (Inl err)
                   | Inr ctx3 \<Rightarrow>
                       drawPaths env colorDefs rest
                         (ctx3 @ [DrawPath (float64 env 0) (float64 env 0) path]))))"

definition renderVector ::
  "('f, 'p) env \<Rightarrow> 'f vector \<Rightarrow> colorDefs \<Rightarrow> (error + ('f, 'p) canvas) go_result" where
  "renderVector env vec colorDefs =
     (case parseDpNum (Width vec) ''width'' of
        Inl err \<Rightarrow> Returned (Inl err)
      | Inr width \<Rightarrow>
          (case parseDpNum (Height vec) ''height'' of
             Inl err \<Rightarrow> Returned (Inl err)
           | Inr height \<Rightarrow>
               (let w = float64 env width; h = float64 env height;
                    ctx = [SetCoordSystem CartesianIV,
                           SetView (fdiv env w (ViewportWidth vec)) (fdiv env h (ViewportHeight vec))]
                in case drawPaths env colorDefs (Paths vec) ctx of
                     Panicked p \<Rightarrow> Panicked p
                   | Returned (Inl err) \<Rightarrow> Returned (Inl err)
                   | Returned (Inr ctx') \<Rightarrow> Returned (Inr \<lparr>W = w, H = h, drawn = ctx'\<rparr>))))"

section \<open>The program\<close>

text \<open>
  How a run ends: the process exits with a status, having printed a text on standard output
  and written files (path, canvas and resolution of each \<open>renderers.Write\<close> that succeeded),
  or it dies of a panic that nothing recovers (the Go runtime then prints the panic value and
  the stack on standard error and ends the process with status 2).
\<close>

datatype ('f, 'p) outcome =
    Exited nat string "(string \<times> ('f, 'p) canvas \<times> 'f) list"
  | Panic string

definition newline :: string where
  "newline = [CHR 0x0A]"

definition version :: string where
  "version = ''1.0''"

definition errorExit ::
  "string \<Rightarrow> string option \<Rightarrow> (string \<times> ('f, 'p) canvas \<times> 'f) list \<Rightarrow> ('f, 'p) outcome" where
  "errorExit msg err written =
     Exited 1
       (''ERROR: '' @ msg @ (case err of None \<Rightarrow> [] | Some e \<Rightarrow> '' ('' @ e @ '')'') @ newline)
       written"

definition saveCanvas ::
  "('f, 'p) env \<Rightarrow> ('f, 'p) canvas \<Rightarrow> string \<Rightarrow> 'f \<Rightarrow> (string \<times> ('f, 'p) canvas \<times> 'f) list
     \<Rightarrow> ('f, 'p) outcome + (string \<times> ('f, 'p) canvas \<times> 'f) list" where
  "saveCanvas env c p scaleFactor written =
     (case renderers_Write env p c scaleFactor of
        Some err \<Rightarrow> Inl (errorExit (''Cannot save PNG data to '' @ quoted p) (Some err) written)
      | None \<Rightarrow> Inr (written @ [(p, c, scaleFactor)]))"

text \<open>\<open>parseColorsFile\<close>: \<open>None\<close> when the resolution loop never ends.\<close>

definition parseColorsFile ::
  "('f, 'p) env \<Rightarrow> string \<Rightarrow> colorDefs \<Rightarrow> (('f, 'p) outcome + colorDefs) option" where
  "parseColorsFile env colorsFile colorDefs =
     (case ReadFile env colorsFile of
        Inl err \<Rightarrow> Some (Inl (errorExit ''Cannot read colors file'' (Some err) []))
      | Inr colorsData \<Rightarrow>
          (case UnmarshalColors env colorsData of
             Inl err \<Rightarrow> Some (Inl (errorExit ''Cannot parse colors file'' (Some err) []))
           | Inr colors \<Rightarrow>
               (case resolveColors colors colorDefs of
                  None \<Rightarrow> None
                | Some colorDefs' \<Rightarrow> Some (Inr colorDefs'))))"

text \<open>The variables that \<open>flag.Parse\<close> sets.\<close>

record 'f flags =
  colorDefsFlag :: colorDefs
  colorsFileFlag :: string
  iosFlag :: bool
  scaleFlag :: 'f
  versionFlag :: bool

definition usage :: "('f, 'p) env \<Rightarrow> string" where
  "usage env =
     ''Usage: '' @ progName env @ '' [options] <vector-image-input> [<png-image-output>]''
       @ newline @ newline @ newline"

text \<open>\<open>main\<close> from the colors file on, once \<open>vectorFile\<close> and \<open>pngFile\<close> are set.\<close>

definition convert ::
  "('f, 'p) env \<Rightarrow> 'f flags \<Rightarrow> string \<Rightarrow> string \<Rightarrow> ('f, 'p) outcome option" where
  "convert env fl vectorFile pngFile =
     (case (if colorsFileFlag fl \<noteq> [] then parseColorsFile env (colorsFileFlag fl) (colorDefsFlag fl)
            else Some (Inr (colorDefsFlag fl))) of
        None \<Rightarrow> None
      | Some (Inl out) \<Rightarrow> Some out
      | Some (Inr colorDefs) \<Rightarrow>
          Some
           (case ReadFile env vectorFile of
              Inl err \<Rightarrow> errorExit ''Cannot read vector file'' (Some err) []
            | Inr xmlData \<Rightarrow>
                (case UnmarshalVector env xmlData of
                   Inl err \<Rightarrow> errorExit ''Cannot parse vector file'' (Some err) []
                 | Inr vec \<Rightarrow>
                     if XMLName_Local vec \<noteq> ''vector''
                     then errorExit ''Not a valid Android vector drawable'' None []
                     else
                       (case renderVector env vec colorDefs of
                          Panicked p \<Rightarrow> Panic p
                        | Returned (Inl err) \<Rightarrow>
                            errorExit ''Cannot render vector file'' (Some (errorMessage err)) []
                        | Returned (Inr c) \<Rightarrow>
                            (case saveCanvas env c pngFile (scaleFlag fl) [] of
                               Inl out \<Rightarrow> out
                             | Inr written1 \<Rightarrow>
                                 if iosFlag fl then
                                   (case saveCanvas env c
                                           (pathWithoutExtension (GOOS env) pngFile @ ''@2x.png'')
                                           (fmul env (float64 env 2) (scaleFlag fl)) written1 of
                                      Inl out \<Rightarrow> out
                                    | Inr written2 \<Rightarrow>
                                        (case saveCanvas env c
                                                (pathWithoutExtension (GOOS env) pngFile @ ''@3x.png'')
                                                (fmul env (float64 env 3) (scaleFlag fl)) written2 of
                                           Inl out \<Rightarrow> out
                                         | Inr written3 \<Rightarrow> Exited 0 [] written3))
                                 else Exited 0 [] written1)))))"

text \<open>\<open>main\<close> after \<open>flag.Parse\<close>; \<open>args\<close> are the arguments left, \<open>flag.Args()\<close>.\<close>

definition main :: "('f, 'p) env \<Rightarrow> 'f flags \<Rightarrow> string list \<Rightarrow> ('f, 'p) outcome option" where
  "main env fl args =
     (if versionFlag fl then Some (Exited 0 (version @ newline) [])
      else if length args = 1
        then convert env fl (args ! 0) (pathWithoutExtension (GOOS env) (args ! 0) @ ''.png'')
      else if length args = 2
        then convert env fl (args ! 0) (args ! 1)
      else Some (Exited 1
                  (''ERROR: Input vector image parameter is missing'' @ newline @ usage env) []))"

section \<open>The command line\<close>

text \<open>
  The flags that \<open>main\<close> declares, and \<open>flag.Parse\<close> of the standard library over them. The
  default flag set exits with status 2 on an error (0 for \<open>-h\<close> and \<open>-help\<close>) after it has
  called \<open>flag.Usage\<close>.
\<close>

datatype flagKind = ColorFlag | ColorsFlag | ScaleFlag | IosFlag | VersionFlag

definition formal :: "(string \<times> flagKind) list" where
  "formal =
     [(''color'', ColorFlag), (''colors'', ColorsFlag), (''scale'', ScaleFlag),
      (''ios'', IosFlag), (''version'', VersionFlag)]"

datatype flagError =
    BadFlagSyntax string
  | FlagNotDefined string
  | ErrHelp
  | InvalidBooleanValue string string
  | FlagNeedsArgument string
  | InvalidFlagValue string string

fun IsBoolFlag :: "flagKind \<Rightarrow> bool" where
  "IsBoolFlag IosFlag = True"
| "IsBoolFlag VersionFlag = True"
| "IsBoolFlag _ = False"

definition ParseBool :: "string \<Rightarrow> bool option" where
  "ParseBool s =
     (if s \<in> set [''1'', ''t'', ''T'', ''TRUE'', ''true'', ''True''] then Some True
      else if s \<in> set [''0'', ''f'', ''F'', ''FALSE'', ''false'', ''False''] then Some False
      else None)"

text \<open>The \<open>Set\<close> method of each flag's value; \<open>None\<close> is an error.\<close>

fun flagSet :: "('f, 'p) env \<Rightarrow> flagKind \<Rightarrow> string \<Rightarrow> 'f flags \<Rightarrow> 'f flags option" where
  "flagSet env ColorFlag v fl =
     (case colorDefs_Set v (colorDefsFlag fl) of
        Inl err \<Rightarrow> None
      | Inr cd \<Rightarrow> Some (fl\<lparr>colorDefsFlag := cd\<rparr>))"
| "flagSet env ColorsFlag v fl = Some (fl\<lparr>colorsFileFlag := v\<rparr>)"
| "flagSet env ScaleFlag v fl =
     (case ParseFloat64 env v of None \<Rightarrow> None | Some f \<Rightarrow> Some (fl\<lparr>scaleFlag := f\<rparr>))"
| "flagSet env IosFlag v fl =
     (case ParseBool v of None \<Rightarrow> None | Some b \<Rightarrow> Some (fl\<lparr>iosFlag := b\<rparr>))"
| "flagSet env VersionFlag v fl =
     (case ParseBool v of None \<Rightarrow> None | Some b \<Rightarrow> Some (fl\<lparr>versionFlag := b\<rparr>))"

text \<open>The name of a flag and the value after an \<open>=\<close>, which cannot be the first character.\<close>

definition splitFlagValue :: "string \<Rightarrow> string \<times> string option" where
  "splitFlagValue name =
     (if CHR ''='' \<in> set (tl name)
      then (hd name # takeWhile (\<lambda>c. c \<noteq> CHR ''='') (tl name),
            Some (drop 1 (dropWhile (\<lambda>c. c \<noteq> CHR ''='') (tl name))))
      else (name, None))"

fun Parse ::
  "('f, 'p) env \<Rightarrow> string list \<Rightarrow> 'f flags \<Rightarrow> flagError + ('f flags \<times> string list)" where
  "Parse env [] fl = Inr (fl, [])"
| "Parse env (s # rest) fl =
     (if length s < 2 \<or> hd s \<noteq> CHR ''-'' then Inr (fl, s # rest)
      else if s = ''--'' then Inr (fl, rest)
      else
        (let name0 = (if s ! 1 = CHR ''-'' then drop 2 s else drop 1 s)
         in if name0 = [] \<or> hd name0 = CHR ''-'' \<or> hd name0 = CHR ''='' then Inl (BadFlagSyntax s)
            else
              (case map_of formal (fst (splitFlagValue name0)) of
                 None \<Rightarrow>
                   if fst (splitFlagValue name0) = ''help'' \<or> fst (splitFlagValue name0) = ''h''
                   then Inl ErrHelp
                   else Inl (FlagNotDefined (fst (splitFlagValue name0)))
               | Some kind \<Rightarrow>
                   if IsBoolFlag kind then
                     (case snd (splitFlagValue name0) of
                        Some v \<Rightarrow>
                          (case flagSet env kind v fl of
                             None \<Rightarrow> Inl (InvalidBooleanValue v (fst (splitFlagValue name0)))
                           | Some fl' \<Rightarrow> Parse env rest fl')
                      | None \<Rightarrow>
                          (case flagSet env kind ''true'' fl of
                             None \<Rightarrow> Inl (InvalidBooleanValue ''true'' (fst (splitFlagValue name0)))
                           | Some fl' \<Rightarrow> Parse env rest fl'))
                   else
                     (case snd (splitFlagValue name0) of
                        Some v \<Rightarrow>
                          (case flagSet env kind v fl of
                             None \<Rightarrow> Inl (InvalidFlagValue v (fst (splitFlagValue name0)))
                           | Some fl' \<Rightarrow> Parse env rest fl')
                      | None \<Rightarrow>
                          (case rest of
                             [] \<Rightarrow> Inl (FlagNeedsArgument (fst (splitFlagValue name0)))
                           | v # rest' \<Rightarrow>
                               (case flagSet env kind v fl of
                                  None \<Rightarrow> Inl (InvalidFlagValue v (fst (splitFlagValue name0)))
                                | Some fl' \<Rightarrow> Parse env rest' fl'))))))"

text \<open>The whole run on the arguments \<open>os.Args[1:]\<close>: the variables start at their defaults.\<close>

definition defaults :: "('f, 'p) env \<Rightarrow> 'f flags" where
  "defaults env =
     \<lparr>colorDefsFlag = noColorDefs, colorsFileFlag = [], iosFlag = False,
      scaleFlag = float64 env 1, versionFlag = False\<rparr>"

definition run :: "('f, 'p) env \<Rightarrow> string list \<Rightarrow> ('f, 'p) outcome option" where
  "run env osArgs =
     (case Parse env osArgs (defaults env) of
        Inl ErrHelp \<Rightarrow> Some (Exited 0 (usage env) [])
      | Inl err \<Rightarrow> Some (Exited 2 (usage env) [])
      | Inr (fl, args) \<Rightarrow> main env fl args)"

section \<open>An example environment\<close>

text \<open>
  A small environment on which the program can be evaluated: three files, two drawables, a
  path parser that accepts the data that is empty or starts with a move command, a writer
  that always succeeds, and exact arithmetic on the reals in the place of \<open>float64\<close> (all the
  numbers of the examples are whole).
\<close>

definition iconVector :: "real vector" where
  "iconVector =
     \<lparr>XMLName_Local = ''vector'', Width = ''24dp'', Height = ''48dp'',
      ViewportWidth = 12, ViewportHeight = 12,
      Paths = [\<lparr>FillColor = ''#F00'', StrokeColor = [], StrokeWidth = 0,
                PathData = ''M0,0 L1,0 L1,1 L0,1 z''\<rparr>]\<rparr>"

definition brokenVector :: "real vector" where
  "brokenVector =
     \<lparr>XMLName_Local = ''vector'', Width = ''24dp'', Height = ''48dp'',
      ViewportWidth = 12, ViewportHeight = 12,
      Paths = [\<lparr>FillColor = ''#F00'', StrokeColor = [], StrokeWidth = 0,
                PathData = ''1 2 3''\<rparr>]\<rparr>"

definition iconCanvas :: "(real, string) canvas" where
  "iconCanvas =
     \<lparr>W = 24, H = 48,
      drawn = [SetCoordSystem CartesianIV, SetView 2 4, SetFillColor Transparent,
               SetStrokeColor Transparent, SetStrokeWidth 0,
               SetFillColor (Solid \<lparr>R = 255, G = 0, B = 0, A = 255\<rparr>),
               DrawPath 0 0 ''M0,0 L1,0 L1,1 L0,1 z'']\<rparr>"

definition exampleReadFile :: "string \<Rightarrow> string + string" where
  "exampleReadFile p =
     (if p = ''icon.xml'' then Inr ''icon''
      else if p = ''broken.xml'' then Inr ''broken''
      else Inl (''open '' @ p @ '': no such file or directory''))"

definition exampleUnmarshalVector :: "string \<Rightarrow> string + real vector" where
  "exampleUnmarshalVector d =
     (if d = ''icon'' then Inr iconVector
      else if d = ''broken'' then Inr brokenVector
      else Inl ''EOF'')"

definition exampleUnmarshalColors :: "string \<Rightarrow> string + colorDef list" where
  "exampleUnmarshalColors d = Inl ''EOF''"

definition exampleParseSVGPath :: "string \<Rightarrow> string + string" where
  "exampleParseSVGPath d =
     (if d = [] \<or> hd d \<in> set ''Mm'' then Inr d
      else Inl ''bad path: path should start with command'')"

definition exampleWrite :: "string \<Rightarrow> (real, string) canvas \<Rightarrow> real \<Rightarrow> string option" where
  "exampleWrite p c scale = None"

definition exampleParseFloat64 :: "string \<Rightarrow> real option" where
  "exampleParseFloat64 s = map_of [(''1'', 1), (''2'', 2), (''3'', 3)] s"

definition exampleEnv :: "(real, string) env" where
  "exampleEnv =
     \<lparr>GOOS = Unix, progName = ''vectopng'', ReadFile = exampleReadFile,
      UnmarshalVector = exampleUnmarshalVector, UnmarshalColors = exampleUnmarshalColors,
      ParseSVGPath = exampleParseSVGPath, renderers_Write = exampleWrite,
      ParseFloat64 = exampleParseFloat64, float64 = of_nat, fdiv = (/), fmul = (*)\<rparr>"

text \<open>
  A second environment, in which every step of a run can fail: more files, among them one
  that is no drawable, drawables with another root element, with dimensions that do not
  parse and with colors that do not resolve, and a writer that refuses three paths.
\<close>

definition shapeVector :: "real vector" where
  "shapeVector = iconVector\<lparr>XMLName_Local := ''shape''\<rparr>"

definition pxVector :: "real vector" where
  "pxVector = iconVector\<lparr>Width := ''24px''\<rparr>"

definition tallVector :: "real vector" where
  "tallVector = iconVector\<lparr>Height := ''tall''\<rparr>"

definition tintVector :: "real vector" where
  "tintVector =
     iconVector\<lparr>Paths :=
       [\<lparr>FillColor = ''#F00'', StrokeColor = ''#00F'', StrokeWidth = 1,
         PathData = ''M0,0 L1,0 L1,1 L0,1 z''\<rparr>,
        \<lparr>FillColor = ''@color/accent'', StrokeColor = [], StrokeWidth = 0,
         PathData = ''M2,2 L3,3''\<rparr>]\<rparr>"

definition strokeVector :: "real vector" where
  "strokeVector =
     iconVector\<lparr>Paths :=
       [\<lparr>FillColor = ''#F00'', StrokeColor = ''#12345'', StrokeWidth = 1,
         PathData = ''M0,0 L1,0 L1,1 L0,1 z''\<rparr>]\<rparr>"

definition faultyReadFile :: "string \<Rightarrow> string + string" where
  "faultyReadFile p =
     (if p = ''notes.txt'' then Inr ''notes''
      else if p = ''shape.xml'' then Inr ''shape''
      else if p = ''px.xml'' then Inr ''px''
      else if p = ''tall.xml'' then Inr ''tall''
      else if p = ''tint.xml'' then Inr ''tint''
      else if p = ''stroke.xml'' then Inr ''stroke''
      else exampleReadFile p)"

definition faultyUnmarshalVector :: "string \<Rightarrow> string + real vector" where
  "faultyUnmarshalVector d =
     (if d = ''shape'' then Inr shapeVector
      else if d = ''px'' then Inr pxVector
      else if d = ''tall'' then Inr tallVector
      else if d = ''tint'' then Inr tintVector
      else if d = ''stroke'' then Inr strokeVector
      else exampleUnmarshalVector d)"

definition faultyWrite :: "string \<Rightarrow> (real, string) canvas \<Rightarrow> real \<Rightarrow> string option" where
  "faultyWrite p c scale =
     (if p \<in> set [''ro/icon.png'', ''half/icon@2x.png'', ''most/icon@3x.png'']
      then Some ''permission denied'' else None)"

definition faultyEnv :: "(real, string) env" where
  "faultyEnv =
     exampleEnv\<lparr>ReadFile := faultyReadFile, UnmarshalVector := faultyUnmarshalVector,
                 renderers_Write := faultyWrite\<rparr>"

section \<open>Properties of the color parser\<close>

lemmas color_eval = parseColor_def colorPattern_FindSubmatch_def isHexDigit_def hexToValue_def
  shl4_or_def byte_def noColorDefs_def

lemma unat_byte: "unat (byte c) = of_char c"
proof -
  have "byte c = of_nat (of_char c)" by (simp add: byte_def of_nat_of_char)
  then have "unat (byte c) = (of_char c :: nat) mod 256" by (simp add: unat_of_nat)
  then show ?thesis by simp
qed

lemma byte_le_iff: "byte c \<le> byte d \<longleftrightarrow> (of_char c :: nat) \<le> of_char d"
  by (simp add: word_le_nat_alt unat_byte)

lemma isHexDigit_nat:
  "isHexDigit c \<longleftrightarrow>
     (48 \<le> (of_char c :: nat) \<and> (of_char c :: nat) \<le> 57)
     \<or> (97 \<le> (of_char c :: nat) \<and> (of_char c :: nat) \<le> 102)
     \<or> (65 \<le> (of_char c :: nat) \<and> (of_char c :: nat) \<le> 70)"
  by (simp add: isHexDigit_def byte_le_iff)

lemma byte_sub: "(of_char d :: nat) \<le> of_char c \<Longrightarrow> byte c - byte d = of_nat (of_char c - of_char d)"
  by (simp add: byte_def of_nat_of_char of_nat_diff)

lemma hexToValue_nat:
  "hexToValue c =
     (if 48 \<le> (of_char c :: nat) \<and> (of_char c :: nat) \<le> 57 then of_nat (of_char c - 48)
      else if 97 \<le> (of_char c :: nat) \<and> (of_char c :: nat) \<le> 102 then of_nat (of_char c - 87)
      else if 65 \<le> (of_char c :: nat) \<and> (of_char c :: nat) \<le> 70 then of_nat (of_char c - 55)
      else 0)"
  by (simp add: hexToValue_def byte_le_iff byte_sub of_nat_diff)

lemma hexDigitValue_nat:
  "hexDigitValue c =
     (if 48 \<le> (of_char c :: nat) \<and> (of_char c :: nat) \<le> 57 then Some (of_char c - 48)
      else if 97 \<le> (of_char c :: nat) \<and> (of_char c :: nat) \<le> 102 then Some (of_char c - 87)
      else if 65 \<le> (of_char c :: nat) \<and> (of_char c :: nat) \<le> 70 then Some (of_char c - 55)
      else None)"
proof -
  define n :: nat where "n = of_char c"
  have eqs: "\<And>d. (c = d) = (n = of_char d)" by (auto simp: n_def)
  have up: "[0..<16] = [0,1,2,3,4,5,6,7,8,9,10,11,12,13,14,15]"
           "[10..<16] = [10,11,12,13,14,15]" by (simp_all add: upt_rec)
  show ?thesis
    unfolding hexDigitValue_def n_def[symmetric] up
    by (simp add: eqs) presburger
qed


lemma unat_hexToValue:
  "unat (hexToValue c) =
     (if 48 \<le> (of_char c :: nat) \<and> (of_char c :: nat) \<le> 57 then of_char c - 48
      else if 97 \<le> (of_char c :: nat) \<and> (of_char c :: nat) \<le> 102 then of_char c - 87
      else if 65 \<le> (of_char c :: nat) \<and> (of_char c :: nat) \<le> 70 then of_char c - 55
      else 0)"
  by (auto simp: hexToValue_nat unat_of_nat simp del: of_nat_diff)

lemma hexToValue_less: "hexToValue c < 16"
proof -
  have "unat (hexToValue c) < 16" by (auto simp: unat_hexToValue)
  then show ?thesis by (simp add: word_less_nat_alt)
qed

lemma hexDigitValue_eq:
  "hexDigitValue c = (if isHexDigit c then Some (unat (hexToValue c)) else None)"
  by (simp add: hexDigitValue_nat isHexDigit_nat unat_hexToValue)

lemma digitValues_eq:
  "digitValues ds = (if list_all isHexDigit ds then Some (map (\<lambda>c. unat (hexToValue c)) ds) else None)"
  by (induction ds) (simp_all add: hexDigitValue_eq)

lemma shl4_or_add:
  assumes "y < 16"
  shows "shl4_or x y = 16 * x + y"
proof -
  have y: "y AND mask 4 = y" using assms less_mask_eq [of y 4] by simp
  have "push_bit 4 x AND (y AND mask 4) = 0"
    by (rule bit_eqI) (simp add: bit_simps)
  then have "push_bit 4 x AND y = 0" by (simp only: y)
  then have "push_bit 4 x + y = push_bit 4 x OR y" by (rule disjunctive_add_eq_or)
  then have "shl4_or x y = push_bit 4 x + y" by (simp add: shl4_or_def)
  also have "\<dots> = 16 * x + y" by (simp add: push_bit_eq_mult)
  finally show ?thesis .
qed

lemma dup_hex: "dup (unat (hexToValue c)) = shl4_or (hexToValue c) (hexToValue c)"
  by (simp add: dup_def shl4_or_add hexToValue_less)

lemma pair_hex: "pair (unat (hexToValue c)) (unat (hexToValue d)) = shl4_or (hexToValue c) (hexToValue d)"
  by (simp add: pair_def shl4_or_add hexToValue_less)

lemma channels_length: "channels vs = Some v \<Longrightarrow> length vs = 3 \<or> length vs = 4 \<or> length vs = 6 \<or> length vs = 8"
  by (induction vs rule: channels.induct) simp_all

lemma len3: "length xs = 3 \<Longrightarrow> \<exists>a b c. xs = [a, b, c]"
  by (auto simp: length_Suc_conv numeral_3_eq_3)

lemma len4: "length xs = 4 \<Longrightarrow> \<exists>a b c d. xs = [a, b, c, d]"
  by (auto simp: length_Suc_conv numeral_eq_Suc)

lemma len6: "length xs = 6 \<Longrightarrow> \<exists>a b c d e f. xs = [a, b, c, d, e, f]"
  by (auto simp: length_Suc_conv numeral_eq_Suc)

lemma len8: "length xs = 8 \<Longrightarrow> \<exists>a b c d e f g h. xs = [a, b, c, d, e, f, g, h]"
  by (auto simp: length_Suc_conv numeral_eq_Suc)

lemma channels_short: "length vs < 3 \<Longrightarrow> channels vs = None"
  by (induction vs rule: channels.induct) simp_all

lemma channels_long: "8 < length vs \<Longrightarrow> channels vs = None"
  by (induction vs rule: channels.induct) simp_all

lemma parseColor_match:
  assumes tab: "colorDefs c = None" and m: "colorPattern_FindSubmatch c = Some spec"
  shows "parseColor c colorDefs =
    (case channels (map (\<lambda>c. unat (hexToValue c)) spec) of
       None \<Rightarrow> Inl (InvalidColor c) | Some v \<Rightarrow> Inr v)"
proof -
  consider "length spec = 3" | "length spec = 4" | "length spec = 6" | "length spec = 8"
    | "length spec \<noteq> 3 \<and> length spec \<noteq> 4 \<and> length spec \<noteq> 6 \<and> length spec \<noteq> 8" by blast
  then show ?thesis
  proof cases
    case 1
    then obtain a b c where "spec = [a, b, c]" using len3 by blast
    then show ?thesis by (simp add: parseColor_def tab m dup_hex Let_def)
  next
    case 2
    then obtain a b c d where "spec = [a, b, c, d]" using len4 by blast
    then show ?thesis by (simp add: parseColor_def tab m dup_hex Let_def)
  next
    case 3
    then obtain a b c d e f where "spec = [a, b, c, d, e, f]" using len6 by blast
    then show ?thesis by (simp add: parseColor_def tab m pair_hex Let_def)
  next
    case 4
    then obtain a b c d e f g h where "spec = [a, b, c, d, e, f, g, h]" using len8 by blast
    then show ?thesis by (simp add: parseColor_def tab m pair_hex Let_def)
  next
    case 5
    have "channels (map (\<lambda>c. unat (hexToValue c)) spec) = None"
    proof (cases "channels (map (\<lambda>c. unat (hexToValue c)) spec)")
      case (Some v)
      from channels_length [OF Some] 5 show ?thesis by simp
    qed simp
    with 5 show ?thesis by (simp add: parseColor_def tab m)
  qed
qed

lemma FindSubmatch_iff:
  "colorPattern_FindSubmatch c = Some spec \<longleftrightarrow>
     c = CHR ''#'' # spec \<and> 3 \<le> length spec \<and> length spec \<le> 8 \<and> list_all isHexDigit spec"
  by (cases c) (auto simp: colorPattern_FindSubmatch_def)

lemma parseColor_eq_ref: "parseColor c colorDefs = parseColorRef c colorDefs"
proof (cases "colorDefs c")
  case (Some v)
  then show ?thesis by (simp add: parseColor_def parseColorRef_def)
next
  case None
  show ?thesis
  proof (cases "colorPattern_FindSubmatch c")
    case (Some spec)
    then have c: "c = CHR ''#'' # spec" and hex: "list_all isHexDigit spec"
      by (simp_all add: FindSubmatch_iff)
    have "parseColorRef c colorDefs =
       (case channels (map (\<lambda>c. unat (hexToValue c)) spec) of
       None \<Rightarrow> Inl (InvalidColor c) | Some v \<Rightarrow> Inr v)"
      using None hex c by (cases c) (auto simp: parseColorRef_def digitValues_eq)
    with parseColor_match [of colorDefs c spec] None Some show ?thesis by simp
  next
    case nomatch: None
    have l: "parseColor c colorDefs = Inl (InvalidColor c)"
      using None nomatch by (simp add: parseColor_def)
    show ?thesis
    proof (cases c)
      case Nil
      with None l show ?thesis by (simp add: parseColorRef_def)
    next
      case (Cons h spec)
      show ?thesis
      proof (cases "h = CHR ''#'' \<and> list_all isHexDigit spec")
        case False
        with None Cons l show ?thesis
          by (auto simp: parseColorRef_def digitValues_eq)
      next
        case True
        with nomatch Cons have "\<not> (3 \<le> length spec \<and> length spec \<le> 8)"
          by (auto simp: colorPattern_FindSubmatch_def)
        then have "channels (map (\<lambda>c. unat (hexToValue c)) spec) = None"
          using channels_short [of "map (\<lambda>c. unat (hexToValue c)) spec"]
                channels_long [of "map (\<lambda>c. unat (hexToValue c)) spec"] by auto
        with True None Cons l show ?thesis
          by (simp add: parseColorRef_def digitValues_eq)
      qed
    qed
  qed
qed

text \<open>
  Claim C2. For every text and every table, \<open>parseColor\<close> returns what the reference mapping
  of the specification returns: the cached value for a key of the table; otherwise the
  channels of \<open>#\<close> followed by 3, 4, 6 or 8 hexadecimal digits (nibbles duplicated for 3 and 4
  digits, byte pairs for 6 and 8, alpha 255 unless given by the leading digits); otherwise the
  error \<open>InvalidColor\<close> that names the text. The four examples of the specification are
  evaluated.
\<close>

theorem parseColor_reference:
  "parseColor c colorDefs = parseColorRef c colorDefs
   \<and> parseColor ''#FFF'' noColorDefs = Inr \<lparr>R = 255, G = 255, B = 255, A = 255\<rparr>
   \<and> parseColor ''#8421'' noColorDefs = Inr \<lparr>R = 0x44, G = 0x22, B = 0x11, A = 0x88\<rparr>
   \<and> parseColor ''#112233'' noColorDefs = Inr \<lparr>R = 0x11, G = 0x22, B = 0x33, A = 255\<rparr>
   \<and> parseColor ''#8090A0B0'' noColorDefs = Inr \<lparr>R = 0x90, G = 0xA0, B = 0xB0, A = 0x80\<rparr>"
proof (intro conjI)
  show "parseColor c colorDefs = parseColorRef c colorDefs" by (rule parseColor_eq_ref)
  show "parseColor ''#FFF'' noColorDefs = Inr \<lparr>R = 255, G = 255, B = 255, A = 255\<rparr>"
    by (simp add: color_eval)
  show "parseColor ''#8421'' noColorDefs = Inr \<lparr>R = 0x44, G = 0x22, B = 0x11, A = 0x88\<rparr>"
    by (simp add: color_eval)
  show "parseColor ''#112233'' noColorDefs = Inr \<lparr>R = 0x11, G = 0x22, B = 0x33, A = 255\<rparr>"
    by (simp add: color_eval)
  show "parseColor ''#8090A0B0'' noColorDefs = Inr \<lparr>R = 0x90, G = 0xA0, B = 0xB0, A = 0x80\<rparr>"
    by (simp add: color_eval)
qed

theorem parseColor_reference_witness:
  "parseColorRef ''#12345'' noColorDefs = Inl (InvalidColor ''#12345'')
   \<and> parseColorRef ''#1e90FF'' noColorDefs = Inr \<lparr>R = 0x1E, G = 0x90, B = 0xFF, A = 255\<rparr>"
proof -
  have "parseColor ''#12345'' noColorDefs = Inl (InvalidColor ''#12345'')"
    by (simp add: color_eval)
  moreover have "parseColor ''#1e90FF'' noColorDefs = Inr \<lparr>R = 0x1E, G = 0x90, B = 0xFF, A = 255\<rparr>"
    by (simp add: color_eval)
  ultimately show ?thesis
    using parseColor_reference [of "''#12345''" noColorDefs]
      parseColor_reference [of "''#1e90FF''" noColorDefs] by simp
qed

section \<open>Properties of the resolution loop\<close>

lemma parseColor_table:
  "parseColor c colorDefs = (case colorDefs c of Some v \<Rightarrow> Inr v | None \<Rightarrow> parseColor c Map.empty)"
  by (simp add: parseColor_def split: option.splits)

lemma colorsPass_all_fail:
  "\<forall>cd\<in>set colors. isl (parseColor (Color cd) colorDefs) \<Longrightarrow>
   colorsPass colors colorDefs remaining = (colorDefs, remaining @ colors)"
  by (induction colors arbitrary: remaining) (auto split: sum.splits)

lemma resolveLoop_stuck_aux:
  assumes "resolveLoop colors remaining colorDefs = Some y"
  shows "\<not> (colors \<noteq> [] \<and> remaining = colors \<and> (\<forall>cd\<in>set colors. isl (parseColor (Color cd) colorDefs)))"
proof (rule resolveLoop.raw_induct
    [where P = "\<lambda>c r d y. \<not> (c \<noteq> [] \<and> r = c \<and> (\<forall>cd\<in>set c. isl (parseColor (Color cd) d)))",
     OF _ assms])
  fix f :: "colorDef list \<Rightarrow> colorDef list \<Rightarrow> colorDefs \<Rightarrow> colorDefs option"
  fix c r d y
  assume IH: "\<And>c r d y. f c r d = Some y \<Longrightarrow>
      \<not> (c \<noteq> [] \<and> r = c \<and> (\<forall>cd\<in>set c. isl (parseColor (Color cd) d)))"
  assume eq: "(case colorsPass c d r of
      (d', r') \<Rightarrow> if loopBreak c r' then Some d' else f r' r' d') = Some y"
  show "\<not> (c \<noteq> [] \<and> r = c \<and> (\<forall>cd\<in>set c. isl (parseColor (Color cd) d)))"
  proof
    assume a: "c \<noteq> [] \<and> r = c \<and> (\<forall>cd\<in>set c. isl (parseColor (Color cd) d))"
    then have p: "colorsPass c d r = (d, c @ c)"
      using colorsPass_all_fail [of c d r] by simp
    from a have nb: "\<not> loopBreak c (c @ c)" by (simp add: loopBreak_def)
    from eq p nb have "f (c @ c) (c @ c) d = Some y" by simp
    from IH [OF this] a show False by auto
  qed
qed

lemma resolveLoop_stuck:
  assumes "colors \<noteq> []" and "\<forall>cd\<in>set colors. isl (parseColor (Color cd) colorDefs)"
  shows "resolveLoop colors colors colorDefs = None"
proof (cases "resolveLoop colors colors colorDefs")
  case (Some y)
  from resolveLoop_stuck_aux [OF Some] assms show ?thesis by simp
qed simp

text \<open>
  Claim C1 says that the loop of \<open>parseColorsFile\<close> terminates on every finite sequence of
  definitions. It does not: \<open>remainingColors\<close> is never emptied between passes, so from the
  second pass on the test \<open>len(colors) == len(remainingColors)\<close> holds only when no definition
  of the pass fails. With a cyclic pair and one definition that resolves, the first pass leaves
  two definitions, every later pass doubles \<open>remainingColors\<close>, and \<open>break\<close> is never reached.
\<close>

theorem resolveColors_diverges:
  "resolveColors [\<lparr>Name = ''a'', Color = ''@color/b''\<rparr>, \<lparr>Name = ''b'', Color = ''@color/a''\<rparr>,
                  \<lparr>Name = ''c'', Color = ''#FF0000''\<rparr>] noColorDefs = None"
proof -
  let ?a = "\<lparr>Name = ''a'', Color = ''@color/b''\<rparr>" and ?b = "\<lparr>Name = ''b'', Color = ''@color/a''\<rparr>"
  let ?c = "\<lparr>Name = ''c'', Color = ''#FF0000''\<rparr>"
  let ?d = "noColorDefs(''@color/c'' \<mapsto> \<lparr>R = 255, G = 0, B = 0, A = 255\<rparr>)"
  have p: "colorsPass [?a, ?b, ?c] noColorDefs [] = (?d, [?a, ?b])"
    by (simp add: color_eval)
  have stuck: "resolveLoop [?a, ?b] [?a, ?b] ?d = None"
    by (rule resolveLoop_stuck) (simp_all add: color_eval)
  show ?thesis
    unfolding resolveColors_def
    by (subst resolveLoop.simps) (simp only: p prod.case, simp add: loopBreak_def stuck)
qed

text \<open>
  The part of the claim about the cyclic pair alone holds: both definitions fail in the first
  pass, the loop stops with the table unchanged, and a later use of either name fails with
  \<open>InvalidColor\<close>.
\<close>

lemma cyclic_pair_stalls:
  "resolveColors [\<lparr>Name = ''a'', Color = ''@color/b''\<rparr>, \<lparr>Name = ''b'', Color = ''@color/a''\<rparr>] noColorDefs
     = Some noColorDefs
   \<and> parseColor ''@color/a'' noColorDefs = Inl (InvalidColor ''@color/a'')
   \<and> parseColor ''@color/b'' noColorDefs = Inl (InvalidColor ''@color/b'')"
proof -
  have "resolveColors [\<lparr>Name = ''a'', Color = ''@color/b''\<rparr>, \<lparr>Name = ''b'', Color = ''@color/a''\<rparr>] noColorDefs
     = Some noColorDefs"
    unfolding resolveColors_def
    by (subst resolveLoop.simps) (simp add: color_eval loopBreak_def)
  then show ?thesis by (simp add: color_eval)
qed

text \<open>
  Claim C8. The definitions \<open>a = "@color/b"\<close>, \<open>b = "#FF0000"\<close>, in that order: the first pass
  resolves \<open>b\<close>, leaves \<open>a\<close> and does not reach \<open>break\<close>; the second pass resolves \<open>a\<close> and
  reaches \<open>break\<close>; the loop returns the table with both names red.
\<close>

theorem forward_reference_two_passes:
  "colorsPass [\<lparr>Name = ''a'', Color = ''@color/b''\<rparr>, \<lparr>Name = ''b'', Color = ''#FF0000''\<rparr>] noColorDefs []
     = (noColorDefs(''@color/b'' \<mapsto> \<lparr>R = 255, G = 0, B = 0, A = 255\<rparr>),
        [\<lparr>Name = ''a'', Color = ''@color/b''\<rparr>])
   \<and> \<not> loopBreak [\<lparr>Name = ''a'', Color = ''@color/b''\<rparr>, \<lparr>Name = ''b'', Color = ''#FF0000''\<rparr>]
          [\<lparr>Name = ''a'', Color = ''@color/b''\<rparr>]
   \<and> colorsPass [\<lparr>Name = ''a'', Color = ''@color/b''\<rparr>]
        (noColorDefs(''@color/b'' \<mapsto> \<lparr>R = 255, G = 0, B = 0, A = 255\<rparr>))
        [\<lparr>Name = ''a'', Color = ''@color/b''\<rparr>]
     = (noColorDefs(''@color/b'' \<mapsto> \<lparr>R = 255, G = 0, B = 0, A = 255\<rparr>,
                    ''@color/a'' \<mapsto> \<lparr>R = 255, G = 0, B = 0, A = 255\<rparr>),
        [\<lparr>Name = ''a'', Color = ''@color/b''\<rparr>])
   \<and> loopBreak [\<lparr>Name = ''a'', Color = ''@color/b''\<rparr>] [\<lparr>Name = ''a'', Color = ''@color/b''\<rparr>]
   \<and> resolveColors [\<lparr>Name = ''a'', Color = ''@color/b''\<rparr>, \<lparr>Name = ''b'', Color = ''#FF0000''\<rparr>] noColorDefs
     = Some (noColorDefs(''@color/b'' \<mapsto> \<lparr>R = 255, G = 0, B = 0, A = 255\<rparr>,
                         ''@color/a'' \<mapsto> \<lparr>R = 255, G = 0, B = 0, A = 255\<rparr>))"
proof -
  let ?a = "\<lparr>Name = ''a'', Color = ''@color/b''\<rparr>" and ?b = "\<lparr>Name = ''b'', Color = ''#FF0000''\<rparr>"
  let ?red = "\<lparr>R = 255, G = 0, B = 0, A = 255 :: 8 word\<rparr>"
  have p1: "colorsPass [?a, ?b] noColorDefs [] = (noColorDefs(''@color/b'' \<mapsto> ?red), [?a])"
    by (simp add: color_eval)
  have p2: "colorsPass [?a] (noColorDefs(''@color/b'' \<mapsto> ?red)) [?a]
     = (noColorDefs(''@color/b'' \<mapsto> ?red, ''@color/a'' \<mapsto> ?red), [?a])"
    by (simp add: color_eval)
  have b1: "\<not> loopBreak [?a, ?b] [?a]" and b2: "loopBreak [?a] [?a]"
    by (simp_all add: loopBreak_def)
  have r: "resolveColors [?a, ?b] noColorDefs
      = Some (noColorDefs(''@color/b'' \<mapsto> ?red, ''@color/a'' \<mapsto> ?red))"
    unfolding resolveColors_def
    apply (subst resolveLoop.simps)
    apply (simp only: p1 prod.case b1 if_False)
    apply (subst resolveLoop.simps)
    apply (simp only: p2 prod.case b2 if_True)
    done
  from p1 p2 b1 b2 r show ?thesis by blast
qed

lemma parseColor_Inl:
  "parseColor c colorDefs = Inl e \<Longrightarrow> colorDefs c = None \<and> isl (parseColor c Map.empty)"
  by (subst (asm) parseColor_table) (auto split: option.splits)

lemma parseColor_Inr_table:
  "parseColor c colorDefs = Inr v \<Longrightarrow> isl (parseColor c Map.empty) \<Longrightarrow> colorDefs c = Some v"
  by (subst (asm) parseColor_table) (auto split: option.splits)

lemma colorsPass_changes:
  "colorsPass colors colorDefs remaining = (colorDefs', remaining') \<Longrightarrow>
   colorDefs' k \<noteq> colorDefs k \<Longrightarrow> \<exists>cd\<in>set colors. k = ''@color/'' @ Name cd"
proof (induction colors arbitrary: colorDefs remaining)
  case Nil
  then show ?case by simp
next
  case (Cons cd rest)
  show ?case
  proof (cases "parseColor (Color cd) colorDefs")
    case (Inl e)
    with Cons.prems have "colorsPass rest colorDefs (remaining @ [cd]) = (colorDefs', remaining')"
      by simp
    from Cons.IH [OF this Cons.prems(2)] show ?thesis by auto
  next
    case (Inr v)
    with Cons.prems have p: "colorsPass rest (colorDefs(''@color/'' @ Name cd \<mapsto> v)) remaining
        = (colorDefs', remaining')" by simp
    show ?thesis
    proof (cases "k = ''@color/'' @ Name cd")
      case True
      then show ?thesis by simp
    next
      case False
      with Cons.prems(2) have "colorDefs' k \<noteq> (colorDefs(''@color/'' @ Name cd \<mapsto> v)) k" by simp
      from Cons.IH [OF p this] show ?thesis by auto
    qed
  qed
qed

lemma first_pass:
  assumes "distinct (map Name colors)"
    and "colorsPass colors colorDefs remaining = (colorDefs', remaining')"
  shows "\<exists>fs. remaining' = remaining @ fs \<and> set fs \<subseteq> set colors \<and>
           (\<forall>cd\<in>set fs. colorDefs (Color cd) = None \<and> isl (parseColor (Color cd) Map.empty)
                \<and> colorDefs' (''@color/'' @ Name cd) = colorDefs (''@color/'' @ Name cd))"
  using assms
proof (induction colors arbitrary: colorDefs remaining)
  case Nil
  then show ?case by simp
next
  case (Cons cd rest)
  from Cons.prems(1) have d: "distinct (map Name rest)" and nin: "Name cd \<notin> Name ` set rest"
    by simp_all
  show ?case
  proof (cases "parseColor (Color cd) colorDefs")
    case (Inl e)
    with Cons.prems have p: "colorsPass rest colorDefs (remaining @ [cd]) = (colorDefs', remaining')"
      by simp
    from Cons.IH [OF d p] obtain fs where fs: "remaining' = (remaining @ [cd]) @ fs"
      "set fs \<subseteq> set rest"
      "\<forall>cd\<in>set fs. colorDefs (Color cd) = None \<and> isl (parseColor (Color cd) Map.empty)
                \<and> colorDefs' (''@color/'' @ Name cd) = colorDefs (''@color/'' @ Name cd)"
      by blast
    have same: "colorDefs' (''@color/'' @ Name cd) = colorDefs (''@color/'' @ Name cd)"
    proof (rule ccontr)
      assume "colorDefs' (''@color/'' @ Name cd) \<noteq> colorDefs (''@color/'' @ Name cd)"
      from colorsPass_changes [OF p this] nin show False by auto
    qed
    from parseColor_Inl [OF Inl] same fs show ?thesis
      by (intro exI [of _ "cd # fs"]) auto
  next
    case (Inr v)
    with Cons.prems have p: "colorsPass rest (colorDefs(''@color/'' @ Name cd \<mapsto> v)) remaining
        = (colorDefs', remaining')" by simp
    from Cons.IH [OF d p] obtain fs where fs: "remaining' = remaining @ fs"
      "set fs \<subseteq> set rest"
      "\<forall>cd'\<in>set fs. (colorDefs(''@color/'' @ Name cd \<mapsto> v)) (Color cd') = None
                \<and> isl (parseColor (Color cd') Map.empty)
                \<and> colorDefs' (''@color/'' @ Name cd') = (colorDefs(''@color/'' @ Name cd \<mapsto> v)) (''@color/'' @ Name cd')"
      by blast
    have "\<forall>cd'\<in>set fs. colorDefs (Color cd') = None \<and> isl (parseColor (Color cd') Map.empty)
                \<and> colorDefs' (''@color/'' @ Name cd') = colorDefs (''@color/'' @ Name cd')"
    proof
      fix cd' assume m: "cd' \<in> set fs"
      with fs(2) nin have ne: "Name cd' \<noteq> Name cd" by (metis imageI subsetD)
      from fs(3) m have
        a: "(colorDefs(''@color/'' @ Name cd \<mapsto> v)) (Color cd') = None"
        and b: "isl (parseColor (Color cd') Map.empty)"
        and c: "colorDefs' (''@color/'' @ Name cd') = (colorDefs(''@color/'' @ Name cd \<mapsto> v)) (''@color/'' @ Name cd')"
        by blast+
      from a have "colorDefs (Color cd') = None" by (simp split: if_splits)
      with b c ne show "colorDefs (Color cd') = None \<and> isl (parseColor (Color cd') Map.empty)
                \<and> colorDefs' (''@color/'' @ Name cd') = colorDefs (''@color/'' @ Name cd')" by simp
    qed
    with fs show ?thesis by (intro exI [of _ fs]) auto
  qed
qed

lemma later_pass:
  assumes inj: "inj_on Name F"
    and lit: "\<forall>cd\<in>F. colorDefs0 (Color cd) = None \<and> isl (parseColor (Color cd) Map.empty)"
    and sub: "set colors \<subseteq> F"
    and con: "\<forall>cd\<in>F. \<forall>v. colorDefs0 (''@color/'' @ Name cd) = None \<longrightarrow>
                colorDefs (''@color/'' @ Name cd) = Some v \<longrightarrow> colorDefs (Color cd) = Some v"
    and pass: "colorsPass colors colorDefs remaining = (colorDefs', remaining')"
  shows "(\<forall>cd\<in>F. \<forall>v. colorDefs0 (''@color/'' @ Name cd) = None \<longrightarrow>
                colorDefs' (''@color/'' @ Name cd) = Some v \<longrightarrow> colorDefs' (Color cd) = Some v)
       \<and> set remaining' \<subseteq> set remaining \<union> set colors
       \<and> (\<forall>k v. colorDefs0 k = None \<longrightarrow> colorDefs k = Some v \<longrightarrow> colorDefs' k = Some v)"
  using sub con pass
proof (induction colors arbitrary: colorDefs remaining)
  case Nil
  then show ?case by simp
next
  case (Cons cd rest)
  from Cons.prems(1) have cdF: "cd \<in> F" and sub': "set rest \<subseteq> F" by simp_all
  note con = Cons.prems(2)
  show ?case
  proof (cases "parseColor (Color cd) colorDefs")
    case (Inl e)
    with Cons.prems have p: "colorsPass rest colorDefs (remaining @ [cd]) = (colorDefs', remaining')"
      by simp
    from Cons.IH [OF sub' con p] show ?thesis by auto
  next
    case (Inr c)
    let ?d = "colorDefs(''@color/'' @ Name cd \<mapsto> c)"
    from Inr Cons.prems have p: "colorsPass rest ?d remaining = (colorDefs', remaining')" by simp
    from lit cdF have "isl (parseColor (Color cd) Map.empty)" by blast
    from parseColor_Inr_table [OF Inr this] have val: "colorDefs (Color cd) = Some c" .
    have keep: "?d k = Some v" if "colorDefs0 k = None" "colorDefs k = Some v" for k v
    proof (cases "k = ''@color/'' @ Name cd")
      case True
      with that con cdF have "colorDefs (Color cd) = Some v" by blast
      with val True show ?thesis by simp
    next
      case False
      with that show ?thesis by simp
    qed
    have con': "\<forall>cd'\<in>F. \<forall>v. colorDefs0 (''@color/'' @ Name cd') = None \<longrightarrow>
                ?d (''@color/'' @ Name cd') = Some v \<longrightarrow> ?d (Color cd') = Some v"
    proof (intro ballI allI impI)
      fix cd' v
      assume m: "cd' \<in> F" and fresh: "colorDefs0 (''@color/'' @ Name cd') = None"
        and bound: "?d (''@color/'' @ Name cd') = Some v"
      show "?d (Color cd') = Some v"
      proof (cases "Name cd' = Name cd")
        case True
        with inj m cdF have "cd' = cd" by (auto dest: inj_onD)
        with bound val show ?thesis by simp
      next
        case False
        with bound have "colorDefs (''@color/'' @ Name cd') = Some v" by simp
        with con m fresh have old: "colorDefs (Color cd') = Some v" by blast
        show ?thesis
        proof (cases "Color cd' = ''@color/'' @ Name cd")
          case True
          from lit m have "colorDefs0 (Color cd') = None" by blast
          with True have "colorDefs0 (''@color/'' @ Name cd) = None" by simp
          moreover from old True have "colorDefs (''@color/'' @ Name cd) = Some v" by simp
          ultimately have "colorDefs (Color cd) = Some v" using con cdF by blast
          with val True show ?thesis by simp
        next
          case False
          with old show ?thesis by simp
        qed
      qed
    qed
    from Cons.IH [OF sub' con' p]
    have 1: "\<forall>cd\<in>F. \<forall>v. colorDefs0 (''@color/'' @ Name cd) = None \<longrightarrow>
                colorDefs' (''@color/'' @ Name cd) = Some v \<longrightarrow> colorDefs' (Color cd) = Some v"
      and 2: "set remaining' \<subseteq> set remaining \<union> set rest"
      and 3: "\<forall>k v. colorDefs0 k = None \<longrightarrow> ?d k = Some v \<longrightarrow> colorDefs' k = Some v"
      by blast+
    from 3 keep have "\<forall>k v. colorDefs0 k = None \<longrightarrow> colorDefs k = Some v \<longrightarrow> colorDefs' k = Some v"
      by blast
    with 1 2 show ?thesis by auto
  qed
qed

lemma passStart_invariant:
  assumes dist: "distinct (map Name entries)"
    and ps: "passStart entries colorDefs0 colors remaining colorDefs"
  shows "(colors = entries \<and> remaining = [] \<and> colorDefs = colorDefs0)
     \<or> (colors = remaining \<and> set remaining \<subseteq> set entries
        \<and> (\<forall>cd\<in>set remaining. colorDefs0 (Color cd) = None \<and> isl (parseColor (Color cd) Map.empty))
        \<and> (\<forall>cd\<in>set remaining. \<forall>v. colorDefs0 (''@color/'' @ Name cd) = None \<longrightarrow>
                colorDefs (''@color/'' @ Name cd) = Some v \<longrightarrow> colorDefs (Color cd) = Some v))"
  using ps
proof (induction rule: passStart.induct)
  case first
  then show ?case by simp
next
  case (later colors remaining colorDefs colorDefs' remaining')
  from later.IH show ?case
  proof
    assume a: "colors = entries \<and> remaining = [] \<and> colorDefs = colorDefs0"
    with later.hyps(2) have p: "colorsPass entries colorDefs0 [] = (colorDefs', remaining')" by simp
    from first_pass [OF dist p] obtain fs where fs: "remaining' = fs" "set fs \<subseteq> set entries"
      "\<forall>cd\<in>set fs. colorDefs0 (Color cd) = None \<and> isl (parseColor (Color cd) Map.empty)
                \<and> colorDefs' (''@color/'' @ Name cd) = colorDefs0 (''@color/'' @ Name cd)"
      by auto
    then show ?thesis by auto
  next
    assume b: "colors = remaining \<and> set remaining \<subseteq> set entries
        \<and> (\<forall>cd\<in>set remaining. colorDefs0 (Color cd) = None \<and> isl (parseColor (Color cd) Map.empty))
        \<and> (\<forall>cd\<in>set remaining. \<forall>v. colorDefs0 (''@color/'' @ Name cd) = None \<longrightarrow>
                colorDefs (''@color/'' @ Name cd) = Some v \<longrightarrow> colorDefs (Color cd) = Some v)"
    from dist have "inj_on Name (set entries)" by (simp add: distinct_map)
    with b have inj: "inj_on Name (set remaining)" by (blast intro: inj_on_subset)
    from b later.hyps(2) have p: "colorsPass remaining colorDefs remaining = (colorDefs', remaining')"
      by simp
    from b have lit: "\<forall>cd\<in>set remaining. colorDefs0 (Color cd) = None \<and> isl (parseColor (Color cd) Map.empty)"
      and con: "\<forall>cd\<in>set remaining. \<forall>v. colorDefs0 (''@color/'' @ Name cd) = None \<longrightarrow>
                colorDefs (''@color/'' @ Name cd) = Some v \<longrightarrow> colorDefs (Color cd) = Some v"
      by blast+
    from later_pass [OF inj lit subset_refl con p]
    have 1: "\<forall>cd\<in>set remaining. \<forall>v. colorDefs0 (''@color/'' @ Name cd) = None \<longrightarrow>
                colorDefs' (''@color/'' @ Name cd) = Some v \<longrightarrow> colorDefs' (Color cd) = Some v"
      and 2: "set remaining' \<subseteq> set remaining" by auto
    from 1 2 b lit show ?thesis by (intro disjI2) blast
  qed
qed

lemma passStart_result:
  "passStart entries colorDefs0 colors remaining colorDefs \<Longrightarrow>
   resolveLoop colors remaining colorDefs = resolveColors entries colorDefs0"
proof (induction rule: passStart.induct)
  case first
  then show ?case by (simp add: resolveColors_def)
next
  case (later colors remaining colorDefs colorDefs' remaining')
  from later.hyps(2,3) have "resolveLoop colors remaining colorDefs = resolveLoop remaining' remaining' colorDefs'"
    by (subst resolveLoop.simps) simp
  with later.IH show ?case by simp
qed

text \<open>
  Claim C9 says that a name, once resolved, is never overwritten by a later pass. Two
  definitions of one name break it: below \<open>a\<close> is red after the first pass, and the second
  pass, which resolves the second definition of \<open>a\<close>, makes it green.
\<close>

theorem duplicate_name_overwritten:
  "passStart [\<lparr>Name = ''a'', Color = ''#F00''\<rparr>, \<lparr>Name = ''a'', Color = ''@color/b''\<rparr>,
              \<lparr>Name = ''b'', Color = ''#0F0''\<rparr>] noColorDefs
     [\<lparr>Name = ''a'', Color = ''@color/b''\<rparr>] [\<lparr>Name = ''a'', Color = ''@color/b''\<rparr>]
     (noColorDefs(''@color/a'' \<mapsto> \<lparr>R = 255, G = 0, B = 0, A = 255\<rparr>,
                  ''@color/b'' \<mapsto> \<lparr>R = 0, G = 255, B = 0, A = 255\<rparr>))
   \<and> fst (colorsPass [\<lparr>Name = ''a'', Color = ''@color/b''\<rparr>]
        (noColorDefs(''@color/a'' \<mapsto> \<lparr>R = 255, G = 0, B = 0, A = 255\<rparr>,
                     ''@color/b'' \<mapsto> \<lparr>R = 0, G = 255, B = 0, A = 255\<rparr>))
        [\<lparr>Name = ''a'', Color = ''@color/b''\<rparr>]) ''@color/a''
     = Some \<lparr>R = 0, G = 255, B = 0, A = 255\<rparr>"
proof -
  let ?a1 = "\<lparr>Name = ''a'', Color = ''#F00''\<rparr>" and ?a2 = "\<lparr>Name = ''a'', Color = ''@color/b''\<rparr>"
  let ?b = "\<lparr>Name = ''b'', Color = ''#0F0''\<rparr>"
  let ?t = "noColorDefs(''@color/a'' \<mapsto> \<lparr>R = 255, G = 0, B = 0, A = 255\<rparr>,
                        ''@color/b'' \<mapsto> \<lparr>R = 0, G = 255, B = 0, A = 255\<rparr>)"
  have p: "colorsPass [?a1, ?a2, ?b] noColorDefs [] = (?t, [?a2])"
    by (simp add: color_eval)
  have nb: "\<not> loopBreak [?a1, ?a2, ?b] [?a2]" by (simp add: loopBreak_def)
  have "passStart [?a1, ?a2, ?b] noColorDefs [?a2] [?a2] ?t"
    by (rule passStart.later [OF passStart.first p nb])
  moreover have "fst (colorsPass [?a2] ?t [?a2]) ''@color/a'' = Some \<lparr>R = 0, G = 255, B = 0, A = 255\<rparr>"
    by (simp add: color_eval)
  ultimately show ?thesis by blast
qed

text \<open>
  Claim C9, amended. When the names of the file are pairwise distinct, a pass of the loop
  leaves unchanged every binding that it finds in the table under a key that the table did
  not hold before the file was loaded, that is, every binding that an earlier pass inserted.
\<close>

theorem resolved_binding_kept:
  assumes dist: "distinct (map Name entries)"
    and ps: "passStart entries colorDefs0 colors remaining colorDefs"
    and pass: "colorsPass colors colorDefs remaining = (colorDefs', remaining')"
    and fresh: "colorDefs0 k = None"
    and bound: "colorDefs k = Some v"
  shows "colorDefs' k = Some v"
  using passStart_invariant [OF dist ps]
proof
  assume "colors = entries \<and> remaining = [] \<and> colorDefs = colorDefs0"
  with fresh bound show ?thesis by simp
next
  assume b: "colors = remaining \<and> set remaining \<subseteq> set entries
        \<and> (\<forall>cd\<in>set remaining. colorDefs0 (Color cd) = None \<and> isl (parseColor (Color cd) Map.empty))
        \<and> (\<forall>cd\<in>set remaining. \<forall>v. colorDefs0 (''@color/'' @ Name cd) = None \<longrightarrow>
                colorDefs (''@color/'' @ Name cd) = Some v \<longrightarrow> colorDefs (Color cd) = Some v)"
  from dist have "inj_on Name (set entries)" by (simp add: distinct_map)
  with b have inj: "inj_on Name (set remaining)" by (blast intro: inj_on_subset)
  from b pass have p: "colorsPass remaining colorDefs remaining = (colorDefs', remaining')"
    by simp
  from b have lit: "\<forall>cd\<in>set remaining. colorDefs0 (Color cd) = None \<and> isl (parseColor (Color cd) Map.empty)"
    and con: "\<forall>cd\<in>set remaining. \<forall>v. colorDefs0 (''@color/'' @ Name cd) = None \<longrightarrow>
                colorDefs (''@color/'' @ Name cd) = Some v \<longrightarrow> colorDefs (Color cd) = Some v"
    by blast+
  from later_pass [OF inj lit subset_refl con p] fresh bound show ?thesis by blast
qed


theorem resolved_binding_kept_witness:
  "distinct (map Name [\<lparr>Name = ''a'', Color = ''@color/b''\<rparr>, \<lparr>Name = ''b'', Color = ''#FF0000''\<rparr>])
   \<and> passStart [\<lparr>Name = ''a'', Color = ''@color/b''\<rparr>, \<lparr>Name = ''b'', Color = ''#FF0000''\<rparr>] noColorDefs
       [\<lparr>Name = ''a'', Color = ''@color/b''\<rparr>] [\<lparr>Name = ''a'', Color = ''@color/b''\<rparr>]
       (noColorDefs(''@color/b'' \<mapsto> \<lparr>R = 255, G = 0, B = 0, A = 255\<rparr>))
   \<and> colorsPass [\<lparr>Name = ''a'', Color = ''@color/b''\<rparr>]
        (noColorDefs(''@color/b'' \<mapsto> \<lparr>R = 255, G = 0, B = 0, A = 255\<rparr>))
        [\<lparr>Name = ''a'', Color = ''@color/b''\<rparr>]
       = (noColorDefs(''@color/b'' \<mapsto> \<lparr>R = 255, G = 0, B = 0, A = 255\<rparr>,
                      ''@color/a'' \<mapsto> \<lparr>R = 255, G = 0, B = 0, A = 255\<rparr>),
          [\<lparr>Name = ''a'', Color = ''@color/b''\<rparr>])
   \<and> noColorDefs ''@color/b'' = None
   \<and> (noColorDefs(''@color/b'' \<mapsto> \<lparr>R = 255, G = 0, B = 0, A = 255\<rparr>)) ''@color/b''
       = Some \<lparr>R = 255, G = 0, B = 0, A = 255\<rparr>
   \<and> (noColorDefs(''@color/b'' \<mapsto> \<lparr>R = 255, G = 0, B = 0, A = 255\<rparr>,
                    ''@color/a'' \<mapsto> \<lparr>R = 255, G = 0, B = 0, A = 255\<rparr>)) ''@color/b''
       = Some \<lparr>R = 255, G = 0, B = 0, A = 255\<rparr>"
proof -
  let ?a = "\<lparr>Name = ''a'', Color = ''@color/b''\<rparr>" and ?b = "\<lparr>Name = ''b'', Color = ''#FF0000''\<rparr>"
  let ?red = "\<lparr>R = 255, G = 0, B = 0, A = 255 :: 8 word\<rparr>"
  let ?d1 = "noColorDefs(''@color/b'' \<mapsto> ?red)"
  let ?d2 = "noColorDefs(''@color/b'' \<mapsto> ?red, ''@color/a'' \<mapsto> ?red)"
  have d: "distinct (map Name [?a, ?b])" by simp
  have p1: "colorsPass [?a, ?b] noColorDefs [] = (?d1, [?a])" by (simp add: color_eval)
  have nb: "\<not> loopBreak [?a, ?b] [?a]" by (simp add: loopBreak_def)
  have ps: "passStart [?a, ?b] noColorDefs [?a] [?a] ?d1"
    by (rule passStart.later [OF passStart.first p1 nb])
  have p2: "colorsPass [?a] ?d1 [?a] = (?d2, [?a])" by (simp add: color_eval)
  have f: "noColorDefs ''@color/b'' = None" by (simp add: noColorDefs_def)
  have b: "?d1 ''@color/b'' = Some ?red" by simp
  from resolved_binding_kept [OF d ps p2 f b] d ps p2 f b show ?thesis by blast
qed

section \<open>Properties of the dimension parser\<close>

lemmas dp_eval = parseDpNum_def dpNumPattern_matchHere_def isDigit_def byte_def ParseFloat32_def
  roundFloat32_def decimalValue_def bitlen.simps Let_def

lemma not_digit_d: "\<not> isDigit (CHR ''d'')"
  by (simp add: isDigit_def byte_def)

lemma not_digit_p: "\<not> isDigit (CHR ''p'')"
  by (simp add: isDigit_def byte_def)

lemma matchHere_digits:
  assumes "ds \<noteq> []" "list_all isDigit ds"
  shows "dpNumPattern_matchHere (ds @ ''dp'' @ post) = Some ds"
proof -
  have "takeWhile isDigit (ds @ ''dp'' @ post) = ds"
    using assms(2) not_digit_d by (simp add: takeWhile_append2 list_all_iff)
  moreover have "dropWhile isDigit (ds @ ''dp'' @ post) = ''dp'' @ post"
    using assms(2) not_digit_d by (simp add: dropWhile_append2 list_all_iff)
  ultimately show ?thesis using assms(1) by (simp add: dpNumPattern_matchHere_def)
qed

lemma matchHere_Some:
  assumes "dpNumPattern_matchHere s = Some ds"
  shows "ds \<noteq> [] \<and> list_all isDigit ds \<and> (\<exists>post. s = ds @ ''dp'' @ post)
         \<and> ds = takeWhile isDigit s"
proof -
  from assms have ds: "ds = takeWhile isDigit s" and ne: "ds \<noteq> []"
    and tk: "take 2 (dropWhile isDigit s) = ''dp''"
    by (auto simp: dpNumPattern_matchHere_def Let_def split: if_splits)
  have "dropWhile isDigit s = take 2 (dropWhile isDigit s) @ drop 2 (dropWhile isDigit s)"
    by simp
  with tk have "dropWhile isDigit s = ''dp'' @ drop 2 (dropWhile isDigit s)" by simp
  then have "s = ds @ ''dp'' @ drop 2 (dropWhile isDigit s)"
    using takeWhile_dropWhile_id [of isDigit s] ds by simp
  moreover have "list_all isDigit ds" unfolding ds list_all_iff by (auto dest: set_takeWhileD)
  ultimately show ?thesis using ne ds by blast
qed

lemma Find_Some:
  "dpNumPattern_FindStringSubmatch n = Some ds \<Longrightarrow>
   ds \<noteq> [] \<and> list_all isDigit ds \<and> (\<exists>pre post. n = pre @ ds @ ''dp'' @ post)"
proof (induction n)
  case Nil
  then show ?case by simp
next
  case (Cons c cs)
  show ?case
  proof (cases "dpNumPattern_matchHere (c # cs)")
    case None
    with Cons.prems have "dpNumPattern_FindStringSubmatch cs = Some ds" by simp
    from Cons.IH [OF this] obtain pre post where "ds \<noteq> []" "list_all isDigit ds"
      "cs = pre @ ds @ ''dp'' @ post" by blast
    then have "c # cs = (c # pre) @ ds @ ''dp'' @ post" by simp
    with \<open>ds \<noteq> []\<close> \<open>list_all isDigit ds\<close> show ?thesis by blast
  next
    case (Some ds')
    with Cons.prems have "ds' = ds" by simp
    with matchHere_Some [OF Some] obtain post where "ds \<noteq> []" "list_all isDigit ds"
      "c # cs = ds @ ''dp'' @ post" by blast
    then have "c # cs = [] @ ds @ ''dp'' @ post" by simp
    with \<open>ds \<noteq> []\<close> \<open>list_all isDigit ds\<close> show ?thesis by blast
  qed
qed

lemma Find_contains:
  assumes "ds \<noteq> []" "list_all isDigit ds"
  shows "dpNumPattern_FindStringSubmatch (pre @ ds @ ''dp'' @ post) \<noteq> None"
proof (induction pre)
  case Nil
  from assms obtain d ds' where "ds = d # ds'" by (cases ds) auto
  with matchHere_digits [OF assms, of post] show ?case by simp
next
  case (Cons c pre)
  then show ?case by (simp split: option.splits)
qed

lemma Find_first:
  assumes ds: "ds \<noteq> []" "list_all isDigit ds"
  shows "\<not> (\<exists>p d q. pre = p @ d @ ''dp'' @ q \<and> d \<noteq> [] \<and> list_all isDigit d) \<Longrightarrow>
         pre = [] \<or> \<not> isDigit (last pre) \<Longrightarrow>
         dpNumPattern_FindStringSubmatch (pre @ ds @ ''dp'' @ post) = Some ds"
proof (induction pre)
  case Nil
  from ds obtain d ds' where "ds = d # ds'" by (cases ds) auto
  with matchHere_digits [OF ds, of post] show ?case by simp
next
  case (Cons c pre)
  have no: "\<not> (\<exists>p d q. pre = p @ d @ ''dp'' @ q \<and> d \<noteq> [] \<and> list_all isDigit d)"
  proof
    assume "\<exists>p d q. pre = p @ d @ ''dp'' @ q \<and> d \<noteq> [] \<and> list_all isDigit d"
    then obtain p d q where "pre = p @ d @ ''dp'' @ q" "d \<noteq> []" "list_all isDigit d" by blast
    then have "c # pre = (c # p) @ d @ ''dp'' @ q" by simp
    with Cons.prems(1) \<open>d \<noteq> []\<close> \<open>list_all isDigit d\<close> show False by blast
  qed
  from Cons.prems(2) have la: "pre = [] \<or> \<not> isDigit (last pre)" by (auto split: if_splits)
  have here: "dpNumPattern_matchHere (c # pre @ ds @ ''dp'' @ post) = None"
  proof (cases "dpNumPattern_matchHere (c # pre @ ds @ ''dp'' @ post)")
    case (Some r)
    from matchHere_Some [OF Some] obtain t where r: "r \<noteq> []" "list_all isDigit r"
      and eq: "c # pre @ ds @ ''dp'' @ post = r @ ''dp'' @ t"
      and tw: "r = takeWhile isDigit (c # pre @ ds @ ''dp'' @ post)" by blast
    from Cons.prems(2) have nd: "\<not> isDigit (last (c # pre))" by simp
    have "last (c # pre) \<in> set (c # pre)" by (rule last_in_set) simp
    with nd have ex: "\<exists>x\<in>set (c # pre). \<not> isDigit x" by blast
    then obtain x where x: "x \<in> set (c # pre)" "\<not> isDigit x" by blast
    have "takeWhile isDigit ((c # pre) @ (ds @ ''dp'' @ post)) = takeWhile isDigit (c # pre)"
      using x by (rule takeWhile_append1)
    with tw have r': "r = takeWhile isDigit (c # pre)" by simp
    define m where "m = dropWhile isDigit (c # pre)"
    have split: "c # pre = r @ m" unfolding r' m_def by simp
    have "m \<noteq> []" unfolding m_def using x by (auto simp: dropWhile_eq_Nil_conv)
    then obtain y m' where m: "m = y # m'" by (cases m) auto
    from eq split have "r @ m @ ds @ ''dp'' @ post = r @ ''dp'' @ t"
      by (metis append.assoc append_Cons)
    then have e2: "m @ ds @ ''dp'' @ post = ''dp'' @ t" by simp
    with m have y: "y = CHR ''d''" and e3: "m' @ ds @ ''dp'' @ post = CHR ''p'' # t" by simp_all
    have "m' \<noteq> []"
    proof
      assume "m' = []"
      with e3 have "hd ds = CHR ''p''" using ds(1) by (cases ds) auto
      moreover from ds have "isDigit (hd ds)" by (cases ds) auto
      ultimately show False using not_digit_p by simp
    qed
    then obtain m'' where m': "m' = CHR ''p'' # m''" using e3 by (cases m') auto
    from split m y m' have "c # pre = [] @ r @ ''dp'' @ m''" by simp
    with Cons.prems(1) r show ?thesis by blast
  qed simp
  from Cons.IH [OF no la] here show ?case by simp
qed


lemma bitlen_le: "n < 2 ^ k \<Longrightarrow> bitlen n \<le> k"
proof (induction k arbitrary: n)
  case 0
  then show ?case by (simp add: bitlen.simps)
next
  case (Suc k)
  then have "n div 2 < 2 ^ k" by simp
  from Suc.IH [OF this] show ?case by (subst bitlen.simps) simp
qed

lemma ParseFloat32_small:
  assumes "decimalValue ds < 2 ^ 24"
  shows "ParseFloat32 ds = Inr (decimalValue ds)"
proof -
  from bitlen_le [OF assms] have "roundFloat32 (decimalValue ds) = decimalValue ds"
    by (simp add: roundFloat32_def)
  moreover have "decimalValue ds < 2 ^ 128"
    using assms by (rule less_trans) simp
  ultimately show ?thesis by (simp add: ParseFloat32_def)
qed

text \<open>
  The pattern has no anchors (unlike \<open>colorPattern\<close>), and \<open>FindStringSubmatch\<close> searches:
  \<open>parseDpNum\<close> takes the first run of digits that is directly followed by \<open>dp\<close>, wherever it
  stands. It fails with \<open>InvalidDimension\<close> exactly when the text contains no such run.
\<close>

lemma parseDpNum_first_run:
  "(parseDpNum n name = Inl (InvalidDimension name n)
      \<longleftrightarrow> \<not> (\<exists>pre ds post. n = pre @ ds @ ''dp'' @ post \<and> ds \<noteq> [] \<and> list_all isDigit ds))
   \<and> (ds \<noteq> [] \<and> list_all isDigit ds \<and> (pre = [] \<or> \<not> isDigit (last pre))
        \<and> \<not> (\<exists>p d q. pre = p @ d @ ''dp'' @ q \<and> d \<noteq> [] \<and> list_all isDigit d)
       \<longrightarrow> parseDpNum (pre @ ds @ ''dp'' @ post) name = ParseFloat32 ds)"
proof (intro conjI impI)
  show "parseDpNum n name = Inl (InvalidDimension name n)
      \<longleftrightarrow> \<not> (\<exists>pre ds post. n = pre @ ds @ ''dp'' @ post \<and> ds \<noteq> [] \<and> list_all isDigit ds)"
  proof (cases "dpNumPattern_FindStringSubmatch n")
    case None
    then have "parseDpNum n name = Inl (InvalidDimension name n)" by (simp add: parseDpNum_def)
    moreover have "\<not> (\<exists>pre ds post. n = pre @ ds @ ''dp'' @ post \<and> ds \<noteq> [] \<and> list_all isDigit ds)"
      using None Find_contains by blast
    ultimately show ?thesis by simp
  next
    case (Some ds)
    then have "parseDpNum n name \<noteq> Inl (InvalidDimension name n)"
      by (auto simp: parseDpNum_def ParseFloat32_def Let_def split: sum.splits if_splits)
    moreover from Find_Some [OF Some]
    have "\<exists>pre ds post. n = pre @ ds @ ''dp'' @ post \<and> ds \<noteq> [] \<and> list_all isDigit ds" by blast
    ultimately show ?thesis by simp
  qed
next
  assume a: "ds \<noteq> [] \<and> list_all isDigit ds \<and> (pre = [] \<or> \<not> isDigit (last pre))
        \<and> \<not> (\<exists>p d q. pre = p @ d @ ''dp'' @ q \<and> d \<noteq> [] \<and> list_all isDigit d)"
  then have "dpNumPattern_FindStringSubmatch (pre @ ds @ ''dp'' @ post) = Some ds"
    using Find_first [of ds pre post] by blast
  then show "parseDpNum (pre @ ds @ ''dp'' @ post) name = ParseFloat32 ds"
    by (simp add: parseDpNum_def split: sum.splits)
qed

lemma parseDpNum_embedded_run:
  "parseDpNum ''1.5dp'' ''width'' = Inr 5 \<and> parseDpNum ''w=108dpi'' ''width'' = Inr 108"
  by (simp add: dp_eval)

text \<open>
  Claim C5 says that \<open>parseDpNum\<close> returns the integer of a text \<open><integer>dp\<close> and that every
  failure is an \<open>InvalidDimension\<close> that names the field. The number is parsed with
  \<open>strconv.ParseFloat(..., 32)\<close>: \<open>16777217dp\<close> gives 16777216, and a number beyond the range
  of \<open>float32\<close> fails with the error of \<open>strconv\<close>, which \<open>parseDpNum\<close> returns as it is.
\<close>

theorem parseDpNum_float32:
  "parseDpNum ''16777217dp'' ''width'' = Inr 16777216
   \<and> parseDpNum ''999999999999999999999999999999999999999dp'' ''width''
       = Inl (ParseFloatRange ''999999999999999999999999999999999999999'')
   \<and> errorMessage (ParseFloatRange ''999999999999999999999999999999999999999'')
       = ''strconv.ParseFloat: parsing '' @ quoted ''999999999999999999999999999999999999999''
           @ '': value out of range''"
  by (simp add: dp_eval)

text \<open>
  Claim C5, amended. For a text that is a run of digits followed by \<open>dp\<close>, \<open>parseDpNum\<close>
  returns what \<open>strconv.ParseFloat(digits, 32)\<close> returns: the number itself when it is below
  \<open>2 ^ 24\<close>, in general the number rounded to \<open>float32\<close>, and beyond the range of \<open>float32\<close>
  the range error of \<open>strconv\<close>. For a text that contains no run of digits directly followed
  by \<open>dp\<close>, it fails with \<open>InvalidDimension\<close>, naming the field and the text. So \<open>24dp\<close>
  gives 24 and \<open>24px\<close> fails.
\<close>

theorem parseDpNum_exact_form:
  "(ds \<noteq> [] \<and> list_all isDigit ds \<longrightarrow> parseDpNum (ds @ ''dp'') name = ParseFloat32 ds)
   \<and> (decimalValue ds < 2 ^ 24 \<longrightarrow> ParseFloat32 ds = Inr (decimalValue ds))
   \<and> (ParseFloat32 ds = Inr (roundFloat32 (decimalValue ds))
        \<or> ParseFloat32 ds = Inl (ParseFloatRange ds))
   \<and> (\<not> (\<exists>pre d post. n = pre @ d @ ''dp'' @ post \<and> d \<noteq> [] \<and> list_all isDigit d)
        \<longrightarrow> parseDpNum n name = Inl (InvalidDimension name n))
   \<and> parseDpNum ''24dp'' ''width'' = Inr 24
   \<and> parseDpNum ''24px'' ''width'' = Inl (InvalidDimension ''width'' ''24px'')"
proof (intro conjI impI)
  assume "ds \<noteq> [] \<and> list_all isDigit ds"
  then have "dpNumPattern_FindStringSubmatch ([] @ ds @ ''dp'' @ []) = Some ds"
    by (intro Find_first) simp_all
  then show "parseDpNum (ds @ ''dp'') name = ParseFloat32 ds"
    by (simp add: parseDpNum_def split: sum.splits)
next
  assume "decimalValue ds < 2 ^ 24"
  then show "ParseFloat32 ds = Inr (decimalValue ds)" by (rule ParseFloat32_small)
next
  show "ParseFloat32 ds = Inr (roundFloat32 (decimalValue ds))
        \<or> ParseFloat32 ds = Inl (ParseFloatRange ds)"
    by (simp add: ParseFloat32_def Let_def)
next
  assume "\<not> (\<exists>pre d post. n = pre @ d @ ''dp'' @ post \<and> d \<noteq> [] \<and> list_all isDigit d)"
  then have "dpNumPattern_FindStringSubmatch n = None"
    using Find_Some [of n] by (cases "dpNumPattern_FindStringSubmatch n") blast+
  then show "parseDpNum n name = Inl (InvalidDimension name n)" by (simp add: parseDpNum_def)
next
  show "parseDpNum ''24dp'' ''width'' = Inr 24" by (simp add: dp_eval)
next
  show "parseDpNum ''24px'' ''width'' = Inl (InvalidDimension ''width'' ''24px'')"
    by (simp add: dp_eval)
qed

theorem parseDpNum_exact_form_witness:
  "''108'' \<noteq> [] \<and> list_all isDigit ''108'' \<and> decimalValue ''108'' < 2 ^ 24
   \<and> parseDpNum ''108dp'' ''height'' = Inr 108
   \<and> \<not> (\<exists>pre d post. ''wide'' = pre @ d @ ''dp'' @ post \<and> d \<noteq> [] \<and> list_all isDigit d)
   \<and> parseDpNum ''wide'' ''height'' = Inl (InvalidDimension ''height'' ''wide'')"
proof -
  have ds: "''108'' \<noteq> [] \<and> list_all isDigit ''108''" by (simp add: isDigit_def byte_def)
  have v: "decimalValue ''108'' = 108" by (simp add: decimalValue_def)
  then have small: "decimalValue ''108'' < 2 ^ 24" by simp
  have "dpNumPattern_FindStringSubmatch ''wide'' = None"
    by (simp add: dpNumPattern_matchHere_def isDigit_def byte_def)
  then have no: "\<not> (\<exists>pre d post. ''wide'' = pre @ d @ ''dp'' @ post \<and> d \<noteq> [] \<and> list_all isDigit d)"
    using Find_contains by metis
  from parseDpNum_exact_form [of "''108''" "''height''" "''wide''"] ds small v no
  show ?thesis by simp
qed

section \<open>Properties of the \<open>-color\<close> flag\<close>

lemmas set_eval = colorDefs_Set_def SplitN_eq_2_def TrimSpace_def isAsciiSpace_def space2_def
  space3_def

lemmas example_eval = exampleEnv_def exampleReadFile_def exampleUnmarshalVector_def
  exampleParseSVGPath_def exampleWrite_def exampleParseFloat64_def iconVector_def
  brokenVector_def iconCanvas_def

lemmas flag_eval = run_def defaults_def splitFlagValue_def formal_def ParseBool_def

text \<open>
  Claim C3 says that the value of a \<open>-color\<close> flag may be the name that an earlier flag
  defined. \<open>Set\<close> parses the value with \<open>parseColor(..., nil)\<close>, so it may not: after
  \<open>-color a=#F00\<close>, the flag \<open>-color b=a\<close> is rejected, by \<open>Set\<close> and so by \<open>flag.Parse\<close>.
\<close>

theorem later_flag_cannot_use_name:
  "colorFlags [''a=#F00''] noColorDefs
     = Inr (noColorDefs(''a'' \<mapsto> \<lparr>R = 255, G = 0, B = 0, A = 255\<rparr>))
   \<and> colorFlags [''a=#F00'', ''b=a''] noColorDefs = Inl (InvalidColorDefinition ''b=a'')
   \<and> Parse exampleEnv [''-color'', ''a=#F00'', ''-color'', ''b=a'', ''icon.xml'']
        (defaults exampleEnv) = Inl (InvalidFlagValue ''b=a'' ''color'')"
proof (intro conjI)
  show "colorFlags [''a=#F00''] noColorDefs
     = Inr (noColorDefs(''a'' \<mapsto> \<lparr>R = 255, G = 0, B = 0, A = 255\<rparr>))"
    by (simp add: set_eval color_eval)
  show "colorFlags [''a=#F00'', ''b=a''] noColorDefs = Inl (InvalidColorDefinition ''b=a'')"
    by (simp add: set_eval color_eval)
  show "Parse exampleEnv [''-color'', ''a=#F00'', ''-color'', ''b=a'', ''icon.xml'']
        (defaults exampleEnv) = Inl (InvalidFlagValue ''b=a'' ''color'')"
    by (simp add: flag_eval set_eval color_eval)
qed

text \<open>
  Claim C3, amended. The value of a \<open>-color name=value\<close> flag is parsed through the color
  parser with an empty table: whether the flag is accepted, and the color it stores, are the
  same whatever the earlier flags have defined. An accepted flag has a value that is a
  hexadecimal color by itself, and it adds the trimmed name with that color to the table.
\<close>

theorem colorDefs_Set_ignores_table:
  "colorDefs_Set v cd =
     (case colorDefs_Set v noColorDefs of Inl err \<Rightarrow> Inl err | Inr t \<Rightarrow> Inr (cd ++ t))
   \<and> (colorDefs_Set v cd = Inr cd' \<longrightarrow>
        (\<exists>name text color. SplitN_eq_2 v = [name, text]
           \<and> parseColor (TrimSpace text) noColorDefs = Inr color
           \<and> cd' = cd(TrimSpace name \<mapsto> color)))"
proof
  show "colorDefs_Set v cd =
     (case colorDefs_Set v noColorDefs of Inl err \<Rightarrow> Inl err | Inr t \<Rightarrow> Inr (cd ++ t))"
    by (simp add: colorDefs_Set_def Let_def noColorDefs_def split: sum.splits)
  show "colorDefs_Set v cd = Inr cd' \<longrightarrow>
        (\<exists>name text color. SplitN_eq_2 v = [name, text]
           \<and> parseColor (TrimSpace text) noColorDefs = Inr color
           \<and> cd' = cd(TrimSpace name \<mapsto> color))"
    by (auto simp: colorDefs_Set_def Let_def SplitN_eq_2_def split: sum.splits if_splits)
qed

theorem colorDefs_Set_ignores_table_witness:
  "colorDefs_Set ''b = #0F0'' (noColorDefs(''a'' \<mapsto> \<lparr>R = 255, G = 0, B = 0, A = 255\<rparr>))
     = Inr (noColorDefs(''a'' \<mapsto> \<lparr>R = 255, G = 0, B = 0, A = 255\<rparr>,
                        ''b'' \<mapsto> \<lparr>R = 0, G = 255, B = 0, A = 255\<rparr>))
   \<and> (\<exists>name text color. SplitN_eq_2 ''b = #0F0'' = [name, text]
         \<and> parseColor (TrimSpace text) noColorDefs = Inr color
         \<and> noColorDefs(''a'' \<mapsto> \<lparr>R = 255, G = 0, B = 0, A = 255\<rparr>,
                        ''b'' \<mapsto> \<lparr>R = 0, G = 255, B = 0, A = 255\<rparr>)
             = (noColorDefs(''a'' \<mapsto> \<lparr>R = 255, G = 0, B = 0, A = 255\<rparr>))(TrimSpace name \<mapsto> color))"
proof -
  let ?cd = "noColorDefs(''a'' \<mapsto> \<lparr>R = 255, G = 0, B = 0, A = 255\<rparr>)"
  let ?cd' = "noColorDefs(''a'' \<mapsto> \<lparr>R = 255, G = 0, B = 0, A = 255\<rparr>,
                          ''b'' \<mapsto> \<lparr>R = 0, G = 255, B = 0, A = 255\<rparr>)"
  have e: "colorDefs_Set ''b = #0F0'' noColorDefs
      = Inr (noColorDefs(''b'' \<mapsto> \<lparr>R = 0, G = 255, B = 0, A = 255\<rparr>))"
    by (simp add: set_eval color_eval)
  have m: "?cd ++ noColorDefs(''b'' \<mapsto> \<lparr>R = 0, G = 255, B = 0, A = 255\<rparr>) = ?cd'"
    by (simp add: noColorDefs_def)
  from colorDefs_Set_ignores_table [of "''b = #0F0''" ?cd ?cd'] e m
  have s: "colorDefs_Set ''b = #0F0'' ?cd = Inr ?cd'" by simp
  with colorDefs_Set_ignores_table [of "''b = #0F0''" ?cd ?cd'] show ?thesis by blast
qed

section \<open>Properties of the program\<close>




lemma icon_render:
  "renderVector exampleEnv iconVector noColorDefs = Returned (Inr iconCanvas)"
  by (simp add: renderVector_def example_eval color_eval dp_eval)



text \<open>The same run from the command line, with a scale and a color flag.\<close>

lemma run_ios:
  "run exampleEnv [''-ios'', ''-scale=2'', ''-color'', ''accent=#F00'', ''icon.xml'']
    = Some (Exited 0 [] [(''icon.png'', iconCanvas, 2), (''icon@2x.png'', iconCanvas, 4),
                         (''icon@3x.png'', iconCanvas, 6)])"
proof -
  let ?fl = "\<lparr>colorDefsFlag = noColorDefs(''accent'' \<mapsto> \<lparr>R = 255, G = 0, B = 0, A = 255\<rparr>),
             colorsFileFlag = [], iosFlag = True, scaleFlag = 2 :: real, versionFlag = False\<rparr>"
  have p: "Parse exampleEnv [''-ios'', ''-scale=2'', ''-color'', ''accent=#F00'', ''icon.xml'']
      (defaults exampleEnv) = Inr (?fl, [''icon.xml''])"
    by (simp add: flag_eval set_eval color_eval exampleEnv_def exampleParseFloat64_def)
  have r: "renderVector exampleEnv iconVector
      (noColorDefs(''accent'' \<mapsto> \<lparr>R = 255, G = 0, B = 0, A = 255\<rparr>)) = Returned (Inr iconCanvas)"
    by (simp add: renderVector_def example_eval color_eval dp_eval)
  have stem: "pathWithoutExtension Unix ''icon.xml'' = ''icon''"
    by (simp add: pathWithoutExtension_def Ext_def TrimSuffix_def HasSuffix_def)
  have stem': "pathWithoutExtension Unix ''icon.png'' = ''icon''"
    by (simp add: pathWithoutExtension_def Ext_def TrimSuffix_def HasSuffix_def)
  have "main exampleEnv ?fl [''icon.xml'']
    = Some (Exited 0 [] [(''icon.png'', iconCanvas, 2), (''icon@2x.png'', iconCanvas, 4),
                         (''icon@3x.png'', iconCanvas, 6)])"
    unfolding main_def convert_def
    using r stem stem'
    by (simp add: exampleEnv_def exampleReadFile_def exampleUnmarshalVector_def
        exampleWrite_def iconVector_def saveCanvas_def)
  with p show ?thesis by (simp add: run_def)
qed

section \<open>Properties of the rendering\<close>

lemma color_step:
  assumes "(if col \<noteq> [] then (case parseColor col colorDefs of
                            Inl err \<Rightarrow> Inl err
                          | Inr c \<Rightarrow> Inr (ctx @ [f (Solid c)]))
            else Inr ctx) = Inr ctx2"
  shows "ctx2 = ctx \<or> (\<exists>c. ctx2 = ctx @ [f (Solid c)])"
  using assms by (auto split: if_splits sum.splits)

lemma drawPaths_appends:
  "drawPaths env colorDefs paths ctx = Returned (Inr ctx') \<Longrightarrow>
   \<exists>more. ctx' = ctx @ more \<and> (\<forall>cs. SetCoordSystem cs \<notin> set more)
      \<and> (\<forall>sx sy. SetView sx sy \<notin> set more)"
proof (induction paths arbitrary: ctx)
  case Nil
  then show ?case by simp
next
  case (Cons pathElem rest)
  let ?ctx1 = "ctx @ [SetFillColor Transparent, SetStrokeColor Transparent,
                      SetStrokeWidth (StrokeWidth pathElem)]"
  let ?fill = "if FillColor pathElem \<noteq> []
               then (case parseColor (FillColor pathElem) colorDefs of
                       Inl err \<Rightarrow> Inl err
                     | Inr c \<Rightarrow> Inr (?ctx1 @ [SetFillColor (Solid c)]))
               else Inr ?ctx1"
  obtain path where path: "ParseSVGPath env (PathData pathElem) = Inr path"
    using Cons.prems by (cases "ParseSVGPath env (PathData pathElem)") simp_all
  obtain ctx2 where fill: "?fill = Inr ctx2"
    using Cons.prems path by (cases ?fill) (simp_all add: Let_def)
  let ?stroke = "if StrokeColor pathElem \<noteq> []
                 then (case parseColor (StrokeColor pathElem) colorDefs of
                         Inl err \<Rightarrow> Inl err
                       | Inr c \<Rightarrow> Inr (ctx2 @ [SetStrokeColor (Solid c)]))
                 else Inr ctx2"
  obtain ctx3 where stroke: "?stroke = Inr ctx3"
    using Cons.prems path fill by (cases ?stroke) (simp_all add: Let_def)
  have call: "drawPaths env colorDefs rest
      (ctx3 @ [DrawPath (float64 env 0) (float64 env 0) path]) = Returned (Inr ctx')"
    using Cons.prems path fill stroke by (simp add: Let_def)
  from Cons.IH [OF call] obtain more where more:
    "ctx' = (ctx3 @ [DrawPath (float64 env 0) (float64 env 0) path]) @ more"
    "\<forall>cs. SetCoordSystem cs \<notin> set more" "\<forall>sx sy. SetView sx sy \<notin> set more" by blast
  from color_step [OF fill] have 2: "\<exists>m2. ctx2 = ?ctx1 @ m2
      \<and> (\<forall>cs. SetCoordSystem cs \<notin> set m2) \<and> (\<forall>sx sy. SetView sx sy \<notin> set m2)"
    by auto
  from color_step [OF stroke] have 3: "\<exists>m3. ctx3 = ctx2 @ m3
      \<and> (\<forall>cs. SetCoordSystem cs \<notin> set m3) \<and> (\<forall>sx sy. SetView sx sy \<notin> set m3)"
    by auto
  from 2 3 obtain m2 m3 where m: "ctx3 = (?ctx1 @ m2) @ m3"
      "\<forall>cs. SetCoordSystem cs \<notin> set m2" "\<forall>sx sy. SetView sx sy \<notin> set m2"
      "\<forall>cs. SetCoordSystem cs \<notin> set m3" "\<forall>sx sy. SetView sx sy \<notin> set m3" by blast
  let ?more = "[SetFillColor Transparent, SetStrokeColor Transparent,
                SetStrokeWidth (StrokeWidth pathElem)] @ m2 @ m3
               @ [DrawPath (float64 env 0) (float64 env 0) path] @ more"
  have "ctx' = ctx @ ?more" using more(1) m(1) by simp
  moreover have "(\<forall>cs. SetCoordSystem cs \<notin> set ?more) \<and> (\<forall>sx sy. SetView sx sy \<notin> set ?more)"
    using more(2,3) m(2-5) by simp
  ultimately show ?case by blast
qed

text \<open>
  Claim C4 says that the rendering uses the orientation with the origin at the bottom left and
  the y-axis up. \<open>renderVector\<close> selects \<open>canvas.CartesianIV\<close>, the fourth quadrant: origin at
  the top left, y-axis down (the orientation of Android drawables).
\<close>

theorem renderVector_orientation:
  "renderVector exampleEnv iconVector noColorDefs = Returned (Inr iconCanvas)
   \<and> hd (drawn iconCanvas) = SetCoordSystem CartesianIV
   \<and> zeroPoint CartesianIV \<noteq> BottomLeft \<and> yAxis CartesianIV \<noteq> Up"
  using icon_render by (simp add: iconCanvas_def)

text \<open>
  Claim C4, amended. Whenever \<open>renderVector\<close> returns a canvas, the canvas has the width and
  height parsed from the document, the coordinate system is set once, to \<open>CartesianIV\<close>
  (origin top-left, y-axis down), and the view is set once, to the identity scaled by
  \<open>width / viewportWidth\<close> and \<open>height / viewportHeight\<close> (the \<open>float64\<close> quotients), with no
  rotation or skew.
\<close>

theorem renderVector_view:
  assumes "renderVector env vec colorDefs = Returned (Inr c)"
  shows "\<exists>width height more.
      parseDpNum (Width vec) ''width'' = Inr width
    \<and> parseDpNum (Height vec) ''height'' = Inr height
    \<and> W c = float64 env width \<and> H c = float64 env height
    \<and> drawn c = [SetCoordSystem CartesianIV,
                  SetView (fdiv env (float64 env width) (ViewportWidth vec))
                          (fdiv env (float64 env height) (ViewportHeight vec))] @ more
    \<and> (\<forall>cs. SetCoordSystem cs \<notin> set more) \<and> (\<forall>sx sy. SetView sx sy \<notin> set more)
    \<and> zeroPoint CartesianIV = TopLeft \<and> yAxis CartesianIV = Down"
proof -
  from assms obtain width height ctx' where
    w: "parseDpNum (Width vec) ''width'' = Inr width"
    and h: "parseDpNum (Height vec) ''height'' = Inr height"
    and d: "drawPaths env colorDefs (Paths vec)
              [SetCoordSystem CartesianIV,
               SetView (fdiv env (float64 env width) (ViewportWidth vec))
                       (fdiv env (float64 env height) (ViewportHeight vec))] = Returned (Inr ctx')"
    and c: "c = \<lparr>W = float64 env width, H = float64 env height, drawn = ctx'\<rparr>"
    by (auto simp: renderVector_def Let_def split: sum.splits go_result.splits)
  from drawPaths_appends [OF d] c w h show ?thesis by auto
qed

theorem renderVector_view_witness:
  "renderVector exampleEnv iconVector noColorDefs = Returned (Inr iconCanvas)
   \<and> (\<exists>width height more.
      parseDpNum (Width iconVector) ''width'' = Inr width
    \<and> parseDpNum (Height iconVector) ''height'' = Inr height
    \<and> W iconCanvas = float64 exampleEnv width \<and> H iconCanvas = float64 exampleEnv height
    \<and> drawn iconCanvas = [SetCoordSystem CartesianIV,
                  SetView (fdiv exampleEnv (float64 exampleEnv width) (ViewportWidth iconVector))
                          (fdiv exampleEnv (float64 exampleEnv height) (ViewportHeight iconVector))] @ more
    \<and> (\<forall>cs. SetCoordSystem cs \<notin> set more) \<and> (\<forall>sx sy. SetView sx sy \<notin> set more)
    \<and> zeroPoint CartesianIV = TopLeft \<and> yAxis CartesianIV = Down)"
  using renderVector_view [OF icon_render] icon_render by blast

section \<open>How a run ends\<close>

lemma errorExit_form:
  "errorExit msg err written = Exited n out files \<Longrightarrow> n = 1 \<and> (\<exists>rest. out = ''ERROR: '' @ rest)"
  by (auto simp: errorExit_def)

lemma saveCanvas_exit:
  "saveCanvas env c p s written = Inl (Exited n out files) \<Longrightarrow>
   n = 1 \<and> (\<exists>rest. out = ''ERROR: '' @ rest)"
  by (auto simp: saveCanvas_def split: option.splits dest: errorExit_form)

lemma parseColorsFile_exit:
  "parseColorsFile env f cd = Some (Inl (Exited n out files)) \<Longrightarrow>
   n = 1 \<and> (\<exists>rest. out = ''ERROR: '' @ rest)"
  by (auto simp: parseColorsFile_def split: sum.splits option.splits dest: errorExit_form)

lemma saveCanvas_Inr:
  "saveCanvas env c p s written = Inr written' \<Longrightarrow>
   renderers_Write env p c s = None \<and> written' = written @ [(p, c, s)]"
  by (auto simp: saveCanvas_def split: option.splits)

lemma convert_success:
  assumes "convert env fl vectorFile pngFile = Some (Exited 0 out files)"
  shows "\<exists>colorDefs xmlData vec c.
      (if colorsFileFlag fl \<noteq> []
       then parseColorsFile env (colorsFileFlag fl) (colorDefsFlag fl)
       else Some (Inr (colorDefsFlag fl))) = Some (Inr colorDefs)
    \<and> ReadFile env vectorFile = Inr xmlData
    \<and> UnmarshalVector env xmlData = Inr vec
    \<and> XMLName_Local vec = ''vector''
    \<and> renderVector env vec colorDefs = Returned (Inr c)
    \<and> out = []
    \<and> files =
        (if iosFlag fl
         then [(pngFile, c, scaleFlag fl),
               (pathWithoutExtension (GOOS env) pngFile @ ''@2x.png'', c,
                  fmul env (float64 env 2) (scaleFlag fl)),
               (pathWithoutExtension (GOOS env) pngFile @ ''@3x.png'', c,
                  fmul env (float64 env 3) (scaleFlag fl))]
         else [(pngFile, c, scaleFlag fl)])
    \<and> (\<forall>f\<in>set files. renderers_Write env (fst f) (fst (snd f)) (snd (snd f)) = None)"
proof -
  let ?tab = "if colorsFileFlag fl \<noteq> []
       then parseColorsFile env (colorsFileFlag fl) (colorDefsFlag fl)
       else Some (Inr (colorDefsFlag fl))"
  from assms obtain colorDefs where tab: "?tab = Some (Inr colorDefs)"
    unfolding convert_def
    by (cases ?tab) (auto split: sum.splits if_splits dest: parseColorsFile_exit)
  from assms obtain xmlData where rd: "ReadFile env vectorFile = Inr xmlData"
    unfolding convert_def tab
    by (cases "ReadFile env vectorFile") (auto dest: errorExit_form)
  from assms obtain vec where um: "UnmarshalVector env xmlData = Inr vec"
    unfolding convert_def tab
    by (cases "UnmarshalVector env xmlData") (auto simp: rd dest: errorExit_form)
  from assms have root: "XMLName_Local vec = ''vector''"
    unfolding convert_def tab
    by (auto simp: rd um split: if_splits dest: errorExit_form)
  from assms obtain c where rv: "renderVector env vec colorDefs = Returned (Inr c)"
    unfolding convert_def tab
    by (cases "renderVector env vec colorDefs")
       (auto simp: rd um root split: sum.splits dest: errorExit_form)
  from assms have s: "(case saveCanvas env c pngFile (scaleFlag fl) [] of
                               Inl out \<Rightarrow> out
                             | Inr written1 \<Rightarrow>
                                 if iosFlag fl then
                                   (case saveCanvas env c
                                           (pathWithoutExtension (GOOS env) pngFile @ ''@2x.png'')
                                           (fmul env (float64 env 2) (scaleFlag fl)) written1 of
                                      Inl out \<Rightarrow> out
                                    | Inr written2 \<Rightarrow>
                                        (case saveCanvas env c
                                                (pathWithoutExtension (GOOS env) pngFile @ ''@3x.png'')
                                                (fmul env (float64 env 3) (scaleFlag fl)) written2 of
                                           Inl out \<Rightarrow> out
                                         | Inr written3 \<Rightarrow> Exited 0 [] written3))
                                 else Exited 0 [] written1) = Exited 0 out files"
    unfolding convert_def tab by (simp add: rd um root rv)
  then have "out = [] \<and> files =
        (if iosFlag fl
         then [(pngFile, c, scaleFlag fl),
               (pathWithoutExtension (GOOS env) pngFile @ ''@2x.png'', c,
                  fmul env (float64 env 2) (scaleFlag fl)),
               (pathWithoutExtension (GOOS env) pngFile @ ''@3x.png'', c,
                  fmul env (float64 env 3) (scaleFlag fl))]
         else [(pngFile, c, scaleFlag fl)])
    \<and> (\<forall>f\<in>set files. renderers_Write env (fst f) (fst (snd f)) (snd (snd f)) = None)"
    by (auto split: sum.splits if_splits dest!: saveCanvas_exit saveCanvas_Inr)
  with tab rd um root rv show ?thesis by blast
qed

lemma run_flag_error:
  "Parse env osArgs (defaults env) = Inl e \<Longrightarrow>
   run env osArgs = Some (Exited (if e = ErrHelp then 0 else 2) (usage env) [])"
  by (cases e) (simp_all add: run_def)

lemma convert_exit:
  assumes "convert env fl vectorFile pngFile = Some (Exited n out files)"
  shows "n = 0 \<or> (n = 1 \<and> (\<exists>rest. out = ''ERROR: '' @ rest))"
  using assms
  by (auto simp: convert_def split: if_splits option.splits sum.splits go_result.splits
      dest!: errorExit_form saveCanvas_exit parseColorsFile_exit)

lemma main_exit_status:
  assumes "main env fl args = Some (Exited n out files)"
  shows "n = 0 \<or> (n = 1 \<and> (\<exists>rest. out = ''ERROR: '' @ rest))"
proof (cases "versionFlag fl")
  case True
  with assms show ?thesis by (simp add: main_def)
next
  case False
  show ?thesis
  proof (cases "length args = 1 \<or> length args = 2")
    case True
    with False assms obtain v p where "convert env fl v p = Some (Exited n out files)"
      by (auto simp: main_def split: if_splits)
    then show ?thesis by (rule convert_exit)
  next
    case False
    with \<open>\<not> versionFlag fl\<close> assms show ?thesis by (auto simp: main_def)
  qed
qed

text \<open>
  Path data goes through \<open>canvas.MustParseSVGPath\<close>, which panics: when the parser rejects
  the data of the first path, the run ends in that panic and never reaches \<open>errorExit\<close>,
  unlike the color and dimension errors of the same function, which are returned to \<open>main\<close>.
\<close>

lemma malformed_path_panics:
  assumes nv: "\<not> versionFlag fl"
    and args: "args = [input] \<or> args = [input, output]"
    and tab: "(if colorsFileFlag fl \<noteq> []
               then parseColorsFile env (colorsFileFlag fl) (colorDefsFlag fl)
               else Some (Inr (colorDefsFlag fl))) = Some (Inr colorDefs)"
    and rd: "ReadFile env input = Inr xmlData"
    and um: "UnmarshalVector env xmlData = Inr vec"
    and root: "XMLName_Local vec = ''vector''"
    and w: "parseDpNum (Width vec) ''width'' = Inr width"
    and h: "parseDpNum (Height vec) ''height'' = Inr height"
    and paths: "Paths vec = pathElem # rest"
    and bad: "ParseSVGPath env (PathData pathElem) = Inl perr"
  shows "main env fl args = Some (Panic perr)"
proof -
  have r: "renderVector env vec colorDefs = Panicked perr"
    using w h paths bad by (simp add: renderVector_def)
  have "convert env fl input p = Some (Panic perr)" for p
    unfolding convert_def tab using rd um root r by simp
  with nv args show ?thesis by (auto simp: main_def)
qed

lemma broken_drawable_panics:
  "main exampleEnv (defaults exampleEnv) [''broken.xml'']
     = Some (Panic ''bad path: path should start with command'')"
proof -
  have nv: "\<not> versionFlag (defaults exampleEnv)" by (simp add: defaults_def)
  have args: "[''broken.xml''] = [''broken.xml''] \<or> [''broken.xml''] = [''broken.xml'', ''out.png'']"
    by simp
  have tab: "(if colorsFileFlag (defaults exampleEnv) \<noteq> []
               then parseColorsFile exampleEnv (colorsFileFlag (defaults exampleEnv))
                      (colorDefsFlag (defaults exampleEnv))
               else Some (Inr (colorDefsFlag (defaults exampleEnv)))) = Some (Inr noColorDefs)"
    by (simp add: defaults_def)
  have rd: "ReadFile exampleEnv ''broken.xml'' = Inr ''broken''" by (simp add: example_eval)
  have um: "UnmarshalVector exampleEnv ''broken'' = Inr brokenVector" by (simp add: example_eval)
  have root: "XMLName_Local brokenVector = ''vector''" by (simp add: example_eval)
  have w: "parseDpNum (Width brokenVector) ''width'' = Inr 24" by (simp add: example_eval dp_eval)
  have h: "parseDpNum (Height brokenVector) ''height'' = Inr 48" by (simp add: example_eval dp_eval)
  have paths: "Paths brokenVector = \<lparr>FillColor = ''#F00'', StrokeColor = [], StrokeWidth = 0,
                PathData = ''1 2 3''\<rparr> # []" by (simp add: example_eval)
  have bad: "ParseSVGPath exampleEnv (PathData \<lparr>FillColor = ''#F00'', StrokeColor = [], StrokeWidth = 0 :: real,
                PathData = ''1 2 3''\<rparr>) = Inl ''bad path: path should start with command''"
    by (simp add: example_eval)
  show ?thesis by (rule malformed_path_panics [OF nv args tab rd um root w h paths bad])
qed

text \<open>
  Conversely, a run without \<open>-version\<close> that exits with status 0 has had one or two
  arguments, has loaded the colors file if one was given, has read and decoded the drawable,
  found the root \<open>vector\<close>, rendered it and written every file asked for.
\<close>

lemma main_success:
  assumes m: "main env fl args = Some (Exited 0 out files)" and nv: "\<not> versionFlag fl"
  shows "\<exists>vectorFile pngFile colorDefs xmlData vec c.
            (args = [vectorFile] \<and> pngFile = pathWithoutExtension (GOOS env) vectorFile @ ''.png''
               \<or> args = [vectorFile, pngFile])
          \<and> (if colorsFileFlag fl \<noteq> []
              then parseColorsFile env (colorsFileFlag fl) (colorDefsFlag fl)
              else Some (Inr (colorDefsFlag fl))) = Some (Inr colorDefs)
          \<and> ReadFile env vectorFile = Inr xmlData
          \<and> UnmarshalVector env xmlData = Inr vec
          \<and> XMLName_Local vec = ''vector''
          \<and> renderVector env vec colorDefs = Returned (Inr c)
          \<and> out = []
          \<and> files =
              (if iosFlag fl
               then [(pngFile, c, scaleFlag fl),
                     (pathWithoutExtension (GOOS env) pngFile @ ''@2x.png'', c,
                        fmul env (float64 env 2) (scaleFlag fl)),
                     (pathWithoutExtension (GOOS env) pngFile @ ''@3x.png'', c,
                        fmul env (float64 env 3) (scaleFlag fl))]
               else [(pngFile, c, scaleFlag fl)])
          \<and> (\<forall>f\<in>set files. renderers_Write env (fst f) (fst (snd f)) (snd (snd f)) = None)"
proof -
  from m nv have "length args = 1 \<or> length args = 2"
    by (auto simp: main_def split: if_splits)
  then consider vectorFile where "args = [vectorFile]"
    | vectorFile pngFile where "args = [vectorFile, pngFile]"
    by (auto simp: length_Suc_conv numeral_2_eq_2)
  then show ?thesis
  proof cases
    case 1
    with m nv have "convert env fl vectorFile (pathWithoutExtension (GOOS env) vectorFile @ ''.png'')
        = Some (Exited 0 out files)" by (simp add: main_def)
    from convert_success [OF this] 1 show ?thesis by blast
  next
    case 2
    with m nv have "convert env fl vectorFile pngFile = Some (Exited 0 out files)"
      by (simp add: main_def)
    from convert_success [OF this] 2 show ?thesis by blast
  qed
qed

text \<open>
  The errors that \<open>main\<close> reports itself. \<open>renderVector\<close> returns the first dimension or color
  that does not parse, after any number of paths that did; \<open>convert\<close> turns every failed step
  into the call of \<open>errorExit\<close> that the source makes at that point.
\<close>

lemma main_args:
  assumes "\<not> versionFlag fl"
    and "args = [vectorFile] \<and> pngFile = pathWithoutExtension (GOOS env) vectorFile @ ''.png''
         \<or> args = [vectorFile, pngFile]"
  shows "main env fl args = convert env fl vectorFile pngFile"
  using assms by (auto simp: main_def)

lemma drawPaths_bad_fill:
  assumes "ParseSVGPath env (PathData pathElem) = Inr path"
    and "FillColor pathElem \<noteq> []"
    and "parseColor (FillColor pathElem) colorDefs = Inl e"
  shows "drawPaths env colorDefs (pathElem # rest) ctx = Returned (Inl e)"
  using assms by (simp add: Let_def)

lemma drawPaths_bad_stroke:
  assumes "ParseSVGPath env (PathData pathElem) = Inr path"
    and "FillColor pathElem = [] \<or> (\<exists>col. parseColor (FillColor pathElem) colorDefs = Inr col)"
    and "StrokeColor pathElem \<noteq> []"
    and "parseColor (StrokeColor pathElem) colorDefs = Inl e"
  shows "drawPaths env colorDefs (pathElem # rest) ctx = Returned (Inl e)"
  using assms by (auto simp: Let_def)

lemma drawPaths_good:
  assumes "\<forall>g\<in>set good.
      (\<exists>path. ParseSVGPath env (PathData g) = Inr path)
    \<and> (FillColor g = [] \<or> (\<exists>col. parseColor (FillColor g) colorDefs = Inr col))
    \<and> (StrokeColor g = [] \<or> (\<exists>col. parseColor (StrokeColor g) colorDefs = Inr col))"
  shows "\<exists>ctx'. drawPaths env colorDefs (good @ rest) ctx = drawPaths env colorDefs rest ctx'"
  using assms
proof (induction good arbitrary: ctx)
  case Nil
  show ?case by (rule exI [of _ ctx]) simp
next
  case (Cons g good)
  from Cons.prems have g: "(\<exists>path. ParseSVGPath env (PathData g) = Inr path)"
    "FillColor g = [] \<or> (\<exists>col. parseColor (FillColor g) colorDefs = Inr col)"
    "StrokeColor g = [] \<or> (\<exists>col. parseColor (StrokeColor g) colorDefs = Inr col)"
    and rest: "\<forall>g\<in>set good.
      (\<exists>path. ParseSVGPath env (PathData g) = Inr path)
    \<and> (FillColor g = [] \<or> (\<exists>col. parseColor (FillColor g) colorDefs = Inr col))
    \<and> (StrokeColor g = [] \<or> (\<exists>col. parseColor (StrokeColor g) colorDefs = Inr col))"
    by simp_all
  from g have "\<exists>ctx1. drawPaths env colorDefs ((g # good) @ rest) ctx
      = drawPaths env colorDefs (good @ rest) ctx1"
    by (auto simp: Let_def)
  then obtain ctx1 where "drawPaths env colorDefs ((g # good) @ rest) ctx
      = drawPaths env colorDefs (good @ rest) ctx1" by blast
  with Cons.IH [OF rest, of ctx1] show ?case by simp
qed

lemma renderVector_bad_width:
  "parseDpNum (Width vec) ''width'' = Inl e \<Longrightarrow> renderVector env vec colorDefs = Returned (Inl e)"
  by (simp add: renderVector_def)

lemma renderVector_bad_height:
  "parseDpNum (Width vec) ''width'' = Inr width \<Longrightarrow> parseDpNum (Height vec) ''height'' = Inl e \<Longrightarrow>
   renderVector env vec colorDefs = Returned (Inl e)"
  by (simp add: renderVector_def)

lemma renderVector_bad_color:
  assumes w: "parseDpNum (Width vec) ''width'' = Inr width"
    and h: "parseDpNum (Height vec) ''height'' = Inr height"
    and paths: "Paths vec = good @ pathElem # rest"
    and good: "\<forall>g\<in>set good.
      (\<exists>path. ParseSVGPath env (PathData g) = Inr path)
    \<and> (FillColor g = [] \<or> (\<exists>col. parseColor (FillColor g) colorDefs = Inr col))
    \<and> (StrokeColor g = [] \<or> (\<exists>col. parseColor (StrokeColor g) colorDefs = Inr col))"
    and bad: "\<And>ctx. drawPaths env colorDefs (pathElem # rest) ctx = Returned (Inl e)"
  shows "renderVector env vec colorDefs = Returned (Inl e)"
proof -
  let ?ctx = "[SetCoordSystem CartesianIV,
               SetView (fdiv env (float64 env width) (ViewportWidth vec))
                       (fdiv env (float64 env height) (ViewportHeight vec))]"
  from drawPaths_good [OF good, of "pathElem # rest" ?ctx] bad
  have "drawPaths env colorDefs (good @ pathElem # rest) ?ctx = Returned (Inl e)" by auto
  then show ?thesis using w h paths by (simp add: renderVector_def)
qed

lemma convert_cases:
  assumes tab: "(if colorsFileFlag fl \<noteq> []
               then parseColorsFile env (colorsFileFlag fl) (colorDefsFlag fl)
               else Some (Inr (colorDefsFlag fl))) = Some (Inr colorDefs)"
  shows "ReadFile env vectorFile = Inl e3 \<Longrightarrow>
           convert env fl vectorFile pngFile = Some (errorExit ''Cannot read vector file'' (Some e3) [])"
    and "ReadFile env vectorFile = Inr xmlData \<Longrightarrow> UnmarshalVector env xmlData = Inl e4 \<Longrightarrow>
           convert env fl vectorFile pngFile = Some (errorExit ''Cannot parse vector file'' (Some e4) [])"
    and "ReadFile env vectorFile = Inr xmlData \<Longrightarrow> UnmarshalVector env xmlData = Inr vec \<Longrightarrow>
         XMLName_Local vec \<noteq> ''vector'' \<Longrightarrow>
           convert env fl vectorFile pngFile
             = Some (errorExit ''Not a valid Android vector drawable'' None [])"
    and "ReadFile env vectorFile = Inr xmlData \<Longrightarrow> UnmarshalVector env xmlData = Inr vec \<Longrightarrow>
         XMLName_Local vec = ''vector'' \<Longrightarrow> renderVector env vec colorDefs = Returned (Inl e5) \<Longrightarrow>
           convert env fl vectorFile pngFile
             = Some (errorExit ''Cannot render vector file'' (Some (errorMessage e5)) [])"
    and "ReadFile env vectorFile = Inr xmlData \<Longrightarrow> UnmarshalVector env xmlData = Inr vec \<Longrightarrow>
         XMLName_Local vec = ''vector'' \<Longrightarrow> renderVector env vec colorDefs = Returned (Inr c) \<Longrightarrow>
         renderers_Write env pngFile c (scaleFlag fl) = Some e6 \<Longrightarrow>
           convert env fl vectorFile pngFile
             = Some (errorExit (''Cannot save PNG data to '' @ quoted pngFile) (Some e6) [])"
    and "ReadFile env vectorFile = Inr xmlData \<Longrightarrow> UnmarshalVector env xmlData = Inr vec \<Longrightarrow>
         XMLName_Local vec = ''vector'' \<Longrightarrow> renderVector env vec colorDefs = Returned (Inr c) \<Longrightarrow>
         renderers_Write env pngFile c (scaleFlag fl) = None \<Longrightarrow> iosFlag fl \<Longrightarrow>
         renderers_Write env (pathWithoutExtension (GOOS env) pngFile @ ''@2x.png'') c
           (fmul env (float64 env 2) (scaleFlag fl)) = Some e7 \<Longrightarrow>
           convert env fl vectorFile pngFile
             = Some (errorExit (''Cannot save PNG data to ''
                       @ quoted (pathWithoutExtension (GOOS env) pngFile @ ''@2x.png'')) (Some e7)
                     [(pngFile, c, scaleFlag fl)])"
    and "ReadFile env vectorFile = Inr xmlData \<Longrightarrow> UnmarshalVector env xmlData = Inr vec \<Longrightarrow>
         XMLName_Local vec = ''vector'' \<Longrightarrow> renderVector env vec colorDefs = Returned (Inr c) \<Longrightarrow>
         renderers_Write env pngFile c (scaleFlag fl) = None \<Longrightarrow> iosFlag fl \<Longrightarrow>
         renderers_Write env (pathWithoutExtension (GOOS env) pngFile @ ''@2x.png'') c
           (fmul env (float64 env 2) (scaleFlag fl)) = None \<Longrightarrow>
         renderers_Write env (pathWithoutExtension (GOOS env) pngFile @ ''@3x.png'') c
           (fmul env (float64 env 3) (scaleFlag fl)) = Some e8 \<Longrightarrow>
           convert env fl vectorFile pngFile
             = Some (errorExit (''Cannot save PNG data to ''
                       @ quoted (pathWithoutExtension (GOOS env) pngFile @ ''@3x.png'')) (Some e8)
                     [(pngFile, c, scaleFlag fl),
                      (pathWithoutExtension (GOOS env) pngFile @ ''@2x.png'', c,
                         fmul env (float64 env 2) (scaleFlag fl))])"
  unfolding convert_def tab by (simp_all add: saveCanvas_def)

lemma convert_colors_cases:
  shows "colorsFileFlag fl \<noteq> [] \<Longrightarrow> ReadFile env (colorsFileFlag fl) = Inl e1 \<Longrightarrow>
           convert env fl vectorFile pngFile = Some (errorExit ''Cannot read colors file'' (Some e1) [])"
    and "colorsFileFlag fl \<noteq> [] \<Longrightarrow> ReadFile env (colorsFileFlag fl) = Inr colorsData \<Longrightarrow>
         UnmarshalColors env colorsData = Inl e2 \<Longrightarrow>
           convert env fl vectorFile pngFile = Some (errorExit ''Cannot parse colors file'' (Some e2) [])"
  by (simp_all add: convert_def parseColorsFile_def)

lemmas faulty_eval = faultyEnv_def faultyReadFile_def faultyUnmarshalVector_def faultyWrite_def
  shapeVector_def pxVector_def tallVector_def tintVector_def strokeVector_def example_eval

lemma faulty_render_icon:
  "renderVector faultyEnv iconVector noColorDefs = Returned (Inr iconCanvas)"
  by (simp add: renderVector_def faulty_eval color_eval dp_eval)

text \<open>
  Claim C6 says that every error ends the run with a message and exit status 1. An error on
  the command line does not: \<open>flag.Parse\<close> reports it and exits with status 2. Here the
  definition given to \<open>-color\<close> has no \<open>=\<close>.
\<close>

theorem flag_error_exits_2:
  "Parse exampleEnv [''-color'', ''red'', ''icon.xml''] (defaults exampleEnv)
     = Inl (InvalidFlagValue ''red'' ''color'')
   \<and> run exampleEnv [''-color'', ''red'', ''icon.xml''] = Some (Exited 2 (usage exampleEnv) [])"
  by (simp add: flag_eval set_eval)

text \<open>
  Claim C6, amended. Every error that \<open>main\<close> detects itself ends the run at once through
  \<open>errorExit\<close>, that is with exit status 1 and the message \<open>ERROR: <what failed>\<close>, followed
  by the cause in parentheses when there is one: a missing input argument (here the usage
  text follows the message), a colors file that cannot be read or decoded, a vector file
  that cannot be read or decoded, a root element other than \<open>vector\<close>, a width, height, fill
  color or stroke color that does not parse, and a PNG file that cannot be written; the files
  written before the failure are the ones listed, and no later step runs. An error on the
  command line ends the run in \<open>flag.Parse\<close> with the usage text and status 2 (0 for \<open>-h\<close>
  and \<open>-help\<close>). Path data that the parser rejects is not among these errors: see
  \<open>malformed_path_panics\<close> above.
\<close>

theorem own_errors_exit_1:
  "errorExit msg err written
     = Exited 1 (''ERROR: '' @ msg @ (case err of None \<Rightarrow> [] | Some e \<Rightarrow> '' ('' @ e @ '')'') @ newline)
         written
   \<and> (\<not> versionFlag fl \<and> length args \<noteq> 1 \<and> length args \<noteq> 2 \<longrightarrow>
        main env fl args
          = Some (Exited 1 (''ERROR: Input vector image parameter is missing'' @ newline @ usage env) []))
   \<and> (\<not> versionFlag fl
      \<and> (args = [vectorFile] \<and> pngFile = pathWithoutExtension (GOOS env) vectorFile @ ''.png''
           \<or> args = [vectorFile, pngFile]) \<longrightarrow>
        (colorsFileFlag fl \<noteq> [] \<and> ReadFile env (colorsFileFlag fl) = Inl e1 \<longrightarrow>
           main env fl args = Some (errorExit ''Cannot read colors file'' (Some e1) []))
      \<and> (colorsFileFlag fl \<noteq> [] \<and> ReadFile env (colorsFileFlag fl) = Inr colorsData
          \<and> UnmarshalColors env colorsData = Inl e2 \<longrightarrow>
           main env fl args = Some (errorExit ''Cannot parse colors file'' (Some e2) []))
      \<and> ((if colorsFileFlag fl \<noteq> []
           then parseColorsFile env (colorsFileFlag fl) (colorDefsFlag fl)
           else Some (Inr (colorDefsFlag fl))) = Some (Inr colorDefs) \<longrightarrow>
           (ReadFile env vectorFile = Inl e3 \<longrightarrow>
              main env fl args = Some (errorExit ''Cannot read vector file'' (Some e3) []))
         \<and> (ReadFile env vectorFile = Inr xmlData \<and> UnmarshalVector env xmlData = Inl e4 \<longrightarrow>
              main env fl args = Some (errorExit ''Cannot parse vector file'' (Some e4) []))
         \<and> (ReadFile env vectorFile = Inr xmlData \<and> UnmarshalVector env xmlData = Inr vec \<longrightarrow>
              (XMLName_Local vec \<noteq> ''vector'' \<longrightarrow>
                 main env fl args = Some (errorExit ''Not a valid Android vector drawable'' None []))
            \<and> (XMLName_Local vec = ''vector'' \<and> renderVector env vec colorDefs = Returned (Inl e5) \<longrightarrow>
                 main env fl args
                   = Some (errorExit ''Cannot render vector file'' (Some (errorMessage e5)) []))
            \<and> (XMLName_Local vec = ''vector'' \<and> renderVector env vec colorDefs = Returned (Inr c) \<longrightarrow>
                 (renderers_Write env pngFile c (scaleFlag fl) = Some e6 \<longrightarrow>
                    main env fl args
                      = Some (errorExit (''Cannot save PNG data to '' @ quoted pngFile) (Some e6) []))
               \<and> (renderers_Write env pngFile c (scaleFlag fl) = None \<and> iosFlag fl \<longrightarrow>
                    (renderers_Write env (pathWithoutExtension (GOOS env) pngFile @ ''@2x.png'') c
                       (fmul env (float64 env 2) (scaleFlag fl)) = Some e7 \<longrightarrow>
                       main env fl args
                         = Some (errorExit
                             (''Cannot save PNG data to ''
                                @ quoted (pathWithoutExtension (GOOS env) pngFile @ ''@2x.png''))
                             (Some e7) [(pngFile, c, scaleFlag fl)]))
                  \<and> (renderers_Write env (pathWithoutExtension (GOOS env) pngFile @ ''@2x.png'') c
                       (fmul env (float64 env 2) (scaleFlag fl)) = None
                     \<and> renderers_Write env (pathWithoutExtension (GOOS env) pngFile @ ''@3x.png'') c
                       (fmul env (float64 env 3) (scaleFlag fl)) = Some e8 \<longrightarrow>
                       main env fl args
                         = Some (errorExit
                             (''Cannot save PNG data to ''
                                @ quoted (pathWithoutExtension (GOOS env) pngFile @ ''@3x.png''))
                             (Some e8)
                             [(pngFile, c, scaleFlag fl),
                              (pathWithoutExtension (GOOS env) pngFile @ ''@2x.png'', c,
                                 fmul env (float64 env 2) (scaleFlag fl))])))))))
   \<and> (parseDpNum (Width vec) ''width'' = Inl e5 \<longrightarrow>
        renderVector env vec colorDefs = Returned (Inl e5))
   \<and> (parseDpNum (Width vec) ''width'' = Inr width \<and> parseDpNum (Height vec) ''height'' = Inl e5 \<longrightarrow>
        renderVector env vec colorDefs = Returned (Inl e5))
   \<and> (parseDpNum (Width vec) ''width'' = Inr width \<and> parseDpNum (Height vec) ''height'' = Inr height
      \<and> Paths vec = good @ pathElem # rest
      \<and> (\<forall>g\<in>set good.
            (\<exists>path. ParseSVGPath env (PathData g) = Inr path)
          \<and> (FillColor g = [] \<or> (\<exists>col. parseColor (FillColor g) colorDefs = Inr col))
          \<and> (StrokeColor g = [] \<or> (\<exists>col. parseColor (StrokeColor g) colorDefs = Inr col)))
      \<and> ParseSVGPath env (PathData pathElem) = Inr path
      \<and> (FillColor pathElem \<noteq> [] \<and> parseColor (FillColor pathElem) colorDefs = Inl e5
         \<or> (FillColor pathElem = [] \<or> parseColor (FillColor pathElem) colorDefs = Inr fill)
           \<and> StrokeColor pathElem \<noteq> [] \<and> parseColor (StrokeColor pathElem) colorDefs = Inl e5) \<longrightarrow>
        renderVector env vec colorDefs = Returned (Inl e5))
   \<and> (Parse env osArgs (defaults env) = Inl e \<longrightarrow>
        run env osArgs = Some (Exited (if e = ErrHelp then 0 else 2) (usage env) []))"
proof (intro conjI)
  show "errorExit msg err written
     = Exited 1 (''ERROR: '' @ msg @ (case err of None \<Rightarrow> [] | Some e \<Rightarrow> '' ('' @ e @ '')'') @ newline)
         written"
    by (simp add: errorExit_def)
next
  show "\<not> versionFlag fl \<and> length args \<noteq> 1 \<and> length args \<noteq> 2 \<longrightarrow>
        main env fl args
          = Some (Exited 1 (''ERROR: Input vector image parameter is missing'' @ newline @ usage env) [])"
    by (simp add: main_def)
next
  show "parseDpNum (Width vec) ''width'' = Inl e5 \<longrightarrow>
        renderVector env vec colorDefs = Returned (Inl e5)"
    by (simp add: renderVector_bad_width)
next
  show "parseDpNum (Width vec) ''width'' = Inr width \<and> parseDpNum (Height vec) ''height'' = Inl e5 \<longrightarrow>
        renderVector env vec colorDefs = Returned (Inl e5)"
    by (simp add: renderVector_bad_height)
next
  show "Parse env osArgs (defaults env) = Inl e \<longrightarrow>
        run env osArgs = Some (Exited (if e = ErrHelp then 0 else 2) (usage env) [])"
    by (simp add: run_flag_error)
next
  show "parseDpNum (Width vec) ''width'' = Inr width \<and> parseDpNum (Height vec) ''height'' = Inr height
      \<and> Paths vec = good @ pathElem # rest
      \<and> (\<forall>g\<in>set good.
            (\<exists>path. ParseSVGPath env (PathData g) = Inr path)
          \<and> (FillColor g = [] \<or> (\<exists>col. parseColor (FillColor g) colorDefs = Inr col))
          \<and> (StrokeColor g = [] \<or> (\<exists>col. parseColor (StrokeColor g) colorDefs = Inr col)))
      \<and> ParseSVGPath env (PathData pathElem) = Inr path
      \<and> (FillColor pathElem \<noteq> [] \<and> parseColor (FillColor pathElem) colorDefs = Inl e5
         \<or> (FillColor pathElem = [] \<or> parseColor (FillColor pathElem) colorDefs = Inr fill)
           \<and> StrokeColor pathElem \<noteq> [] \<and> parseColor (StrokeColor pathElem) colorDefs = Inl e5) \<longrightarrow>
        renderVector env vec colorDefs = Returned (Inl e5)"
  proof (intro impI, elim conjE)
    assume w: "parseDpNum (Width vec) ''width'' = Inr width"
      and h: "parseDpNum (Height vec) ''height'' = Inr height"
      and paths: "Paths vec = good @ pathElem # rest"
      and good: "\<forall>g\<in>set good.
            (\<exists>path. ParseSVGPath env (PathData g) = Inr path)
          \<and> (FillColor g = [] \<or> (\<exists>col. parseColor (FillColor g) colorDefs = Inr col))
          \<and> (StrokeColor g = [] \<or> (\<exists>col. parseColor (StrokeColor g) colorDefs = Inr col))"
      and p: "ParseSVGPath env (PathData pathElem) = Inr path"
      and bad: "FillColor pathElem \<noteq> [] \<and> parseColor (FillColor pathElem) colorDefs = Inl e5
         \<or> (FillColor pathElem = [] \<or> parseColor (FillColor pathElem) colorDefs = Inr fill)
           \<and> StrokeColor pathElem \<noteq> [] \<and> parseColor (StrokeColor pathElem) colorDefs = Inl e5"
    have "drawPaths env colorDefs (pathElem # rest) ctx = Returned (Inl e5)" for ctx
      using bad p drawPaths_bad_fill [of env pathElem path colorDefs e5 rest ctx]
        drawPaths_bad_stroke [of env pathElem path colorDefs e5 rest ctx]
      by blast
    with w h paths good show "renderVector env vec colorDefs = Returned (Inl e5)"
      by (rule renderVector_bad_color)
  qed
next
  show "\<not> versionFlag fl
      \<and> (args = [vectorFile] \<and> pngFile = pathWithoutExtension (GOOS env) vectorFile @ ''.png''
           \<or> args = [vectorFile, pngFile]) \<longrightarrow>
        (colorsFileFlag fl \<noteq> [] \<and> ReadFile env (colorsFileFlag fl) = Inl e1 \<longrightarrow>
           main env fl args = Some (errorExit ''Cannot read colors file'' (Some e1) []))
      \<and> (colorsFileFlag fl \<noteq> [] \<and> ReadFile env (colorsFileFlag fl) = Inr colorsData
          \<and> UnmarshalColors env colorsData = Inl e2 \<longrightarrow>
           main env fl args = Some (errorExit ''Cannot parse colors file'' (Some e2) []))
      \<and> ((if colorsFileFlag fl \<noteq> []
           then parseColorsFile env (colorsFileFlag fl) (colorDefsFlag fl)
           else Some (Inr (colorDefsFlag fl))) = Some (Inr colorDefs) \<longrightarrow>
           (ReadFile env vectorFile = Inl e3 \<longrightarrow>
              main env fl args = Some (errorExit ''Cannot read vector file'' (Some e3) []))
         \<and> (ReadFile env vectorFile = Inr xmlData \<and> UnmarshalVector env xmlData = Inl e4 \<longrightarrow>
              main env fl args = Some (errorExit ''Cannot parse vector file'' (Some e4) []))
         \<and> (ReadFile env vectorFile = Inr xmlData \<and> UnmarshalVector env xmlData = Inr vec \<longrightarrow>
              (XMLName_Local vec \<noteq> ''vector'' \<longrightarrow>
                 main env fl args = Some (errorExit ''Not a valid Android vector drawable'' None []))
            \<and> (XMLName_Local vec = ''vector'' \<and> renderVector env vec colorDefs = Returned (Inl e5) \<longrightarrow>
                 main env fl args
                   = Some (errorExit ''Cannot render vector file'' (Some (errorMessage e5)) []))
            \<and> (XMLName_Local vec = ''vector'' \<and> renderVector env vec colorDefs = Returned (Inr c) \<longrightarrow>
                 (renderers_Write env pngFile c (scaleFlag fl) = Some e6 \<longrightarrow>
                    main env fl args
                      = Some (errorExit (''Cannot save PNG data to '' @ quoted pngFile) (Some e6) []))
               \<and> (renderers_Write env pngFile c (scaleFlag fl) = None \<and> iosFlag fl \<longrightarrow>
                    (renderers_Write env (pathWithoutExtension (GOOS env) pngFile @ ''@2x.png'') c
                       (fmul env (float64 env 2) (scaleFlag fl)) = Some e7 \<longrightarrow>
                       main env fl args
                         = Some (errorExit
                             (''Cannot save PNG data to ''
                                @ quoted (pathWithoutExtension (GOOS env) pngFile @ ''@2x.png''))
                             (Some e7) [(pngFile, c, scaleFlag fl)]))
                  \<and> (renderers_Write env (pathWithoutExtension (GOOS env) pngFile @ ''@2x.png'') c
                       (fmul env (float64 env 2) (scaleFlag fl)) = None
                     \<and> renderers_Write env (pathWithoutExtension (GOOS env) pngFile @ ''@3x.png'') c
                       (fmul env (float64 env 3) (scaleFlag fl)) = Some e8 \<longrightarrow>
                       main env fl args
                         = Some (errorExit
                             (''Cannot save PNG data to ''
                                @ quoted (pathWithoutExtension (GOOS env) pngFile @ ''@3x.png''))
                             (Some e8)
                             [(pngFile, c, scaleFlag fl),
                              (pathWithoutExtension (GOOS env) pngFile @ ''@2x.png'', c,
                                 fmul env (float64 env 2) (scaleFlag fl))]))))))"
  proof (intro impI, elim conjE)
    assume nv: "\<not> versionFlag fl"
      and a: "args = [vectorFile] \<and> pngFile = pathWithoutExtension (GOOS env) vectorFile @ ''.png''
           \<or> args = [vectorFile, pngFile]"
    have m: "main env fl args = convert env fl vectorFile pngFile"
      using nv a by (rule main_args)
    show "(colorsFileFlag fl \<noteq> [] \<and> ReadFile env (colorsFileFlag fl) = Inl e1 \<longrightarrow>
           main env fl args = Some (errorExit ''Cannot read colors file'' (Some e1) []))
      \<and> (colorsFileFlag fl \<noteq> [] \<and> ReadFile env (colorsFileFlag fl) = Inr colorsData
          \<and> UnmarshalColors env colorsData = Inl e2 \<longrightarrow>
           main env fl args = Some (errorExit ''Cannot parse colors file'' (Some e2) []))
      \<and> ((if colorsFileFlag fl \<noteq> []
           then parseColorsFile env (colorsFileFlag fl) (colorDefsFlag fl)
           else Some (Inr (colorDefsFlag fl))) = Some (Inr colorDefs) \<longrightarrow>
           (ReadFile env vectorFile = Inl e3 \<longrightarrow>
              main env fl args = Some (errorExit ''Cannot read vector file'' (Some e3) []))
         \<and> (ReadFile env vectorFile = Inr xmlData \<and> UnmarshalVector env xmlData = Inl e4 \<longrightarrow>
              main env fl args = Some (errorExit ''Cannot parse vector file'' (Some e4) []))
         \<and> (ReadFile env vectorFile = Inr xmlData \<and> UnmarshalVector env xmlData = Inr vec \<longrightarrow>
              (XMLName_Local vec \<noteq> ''vector'' \<longrightarrow>
                 main env fl args = Some (errorExit ''Not a valid Android vector drawable'' None []))
            \<and> (XMLName_Local vec = ''vector'' \<and> renderVector env vec colorDefs = Returned (Inl e5) \<longrightarrow>
                 main env fl args
                   = Some (errorExit ''Cannot render vector file'' (Some (errorMessage e5)) []))
            \<and> (XMLName_Local vec = ''vector'' \<and> renderVector env vec colorDefs = Returned (Inr c) \<longrightarrow>
                 (renderers_Write env pngFile c (scaleFlag fl) = Some e6 \<longrightarrow>
                    main env fl args
                      = Some (errorExit (''Cannot save PNG data to '' @ quoted pngFile) (Some e6) []))
               \<and> (renderers_Write env pngFile c (scaleFlag fl) = None \<and> iosFlag fl \<longrightarrow>
                    (renderers_Write env (pathWithoutExtension (GOOS env) pngFile @ ''@2x.png'') c
                       (fmul env (float64 env 2) (scaleFlag fl)) = Some e7 \<longrightarrow>
                       main env fl args
                         = Some (errorExit
                             (''Cannot save PNG data to ''
                                @ quoted (pathWithoutExtension (GOOS env) pngFile @ ''@2x.png''))
                             (Some e7) [(pngFile, c, scaleFlag fl)]))
                  \<and> (renderers_Write env (pathWithoutExtension (GOOS env) pngFile @ ''@2x.png'') c
                       (fmul env (float64 env 2) (scaleFlag fl)) = None
                     \<and> renderers_Write env (pathWithoutExtension (GOOS env) pngFile @ ''@3x.png'') c
                       (fmul env (float64 env 3) (scaleFlag fl)) = Some e8 \<longrightarrow>
                       main env fl args
                         = Some (errorExit
                             (''Cannot save PNG data to ''
                                @ quoted (pathWithoutExtension (GOOS env) pngFile @ ''@3x.png''))
                             (Some e8)
                             [(pngFile, c, scaleFlag fl),
                              (pathWithoutExtension (GOOS env) pngFile @ ''@2x.png'', c,
                                 fmul env (float64 env 2) (scaleFlag fl))]))))))"
      unfolding m
      by (intro conjI impI; (elim conjE)?)
         (blast intro: convert_colors_cases convert_cases)+
  qed
qed

theorem own_errors_exit_1_witness:
  "main faultyEnv (defaults faultyEnv) []
     = Some (Exited 1 (''ERROR: Input vector image parameter is missing'' @ newline @ usage faultyEnv) [])
   \<and> main faultyEnv ((defaults faultyEnv)\<lparr>colorsFileFlag := ''nocolors.xml''\<rparr>) [''icon.xml'']
       = Some (Exited 1
           (''ERROR: Cannot read colors file (open nocolors.xml: no such file or directory)''
              @ newline) [])
   \<and> main faultyEnv ((defaults faultyEnv)\<lparr>colorsFileFlag := ''icon.xml''\<rparr>) [''icon.xml'']
       = Some (Exited 1 (''ERROR: Cannot parse colors file (EOF)'' @ newline) [])
   \<and> main faultyEnv (defaults faultyEnv) [''missing.xml'']
       = Some (Exited 1
           (''ERROR: Cannot read vector file (open missing.xml: no such file or directory)''
              @ newline) [])
   \<and> main faultyEnv (defaults faultyEnv) [''notes.txt'']
       = Some (Exited 1 (''ERROR: Cannot parse vector file (EOF)'' @ newline) [])
   \<and> main faultyEnv (defaults faultyEnv) [''shape.xml'']
       = Some (Exited 1 (''ERROR: Not a valid Android vector drawable'' @ newline) [])
   \<and> main faultyEnv (defaults faultyEnv) [''px.xml'']
       = Some (Exited 1
           (''ERROR: Cannot render vector file (Invalid width '' @ quoted ''24px'' @ '')''
              @ newline) [])
   \<and> main faultyEnv (defaults faultyEnv) [''tall.xml'']
       = Some (Exited 1
           (''ERROR: Cannot render vector file (Invalid height '' @ quoted ''tall'' @ '')''
              @ newline) [])
   \<and> main faultyEnv (defaults faultyEnv) [''tint.xml'']
       = Some (Exited 1
           (''ERROR: Cannot render vector file (Invalid color '' @ quoted ''@color/accent'' @ '')''
              @ newline) [])
   \<and> main faultyEnv (defaults faultyEnv) [''stroke.xml'']
       = Some (Exited 1
           (''ERROR: Cannot render vector file (Invalid color '' @ quoted ''#12345'' @ '')''
              @ newline) [])
   \<and> main faultyEnv (defaults faultyEnv) [''icon.xml'', ''ro/icon.png'']
       = Some (Exited 1
           (''ERROR: Cannot save PNG data to '' @ quoted ''ro/icon.png'' @ '' (permission denied)''
              @ newline) [])
   \<and> main faultyEnv ((defaults faultyEnv)\<lparr>iosFlag := True\<rparr>) [''icon.xml'', ''half/icon.png'']
       = Some (Exited 1
           (''ERROR: Cannot save PNG data to '' @ quoted ''half/icon@2x.png''
              @ '' (permission denied)'' @ newline)
           [(''half/icon.png'', iconCanvas, 1)])
   \<and> main faultyEnv ((defaults faultyEnv)\<lparr>iosFlag := True\<rparr>) [''icon.xml'', ''most/icon.png'']
       = Some (Exited 1
           (''ERROR: Cannot save PNG data to '' @ quoted ''most/icon@3x.png''
              @ '' (permission denied)'' @ newline)
           [(''most/icon.png'', iconCanvas, 1), (''most/icon@2x.png'', iconCanvas, 2)])
   \<and> Parse faultyEnv [''-scale'', ''big'', ''icon.xml''] (defaults faultyEnv)
       = Inl (InvalidFlagValue ''big'' ''scale'')
   \<and> run faultyEnv [''-scale'', ''big'', ''icon.xml''] = Some (Exited 2 (usage faultyEnv) [])"
proof -
  let ?fl = "defaults faultyEnv"
  let ?ios = "(defaults faultyEnv)\<lparr>iosFlag := True\<rparr>"
  have os: "GOOS faultyEnv = Unix" by (simp add: faulty_eval)
  have stem: "pathWithoutExtension Unix ''missing.xml'' = ''missing''"
    "pathWithoutExtension Unix ''notes.txt'' = ''notes''"
    "pathWithoutExtension Unix ''shape.xml'' = ''shape''"
    "pathWithoutExtension Unix ''px.xml'' = ''px''"
    "pathWithoutExtension Unix ''tall.xml'' = ''tall''"
    "pathWithoutExtension Unix ''tint.xml'' = ''tint''"
    "pathWithoutExtension Unix ''stroke.xml'' = ''stroke''"
    "pathWithoutExtension Unix ''icon.xml'' = ''icon''"
    "pathWithoutExtension Unix ''half/icon.png'' = ''half/icon''"
    "pathWithoutExtension Unix ''most/icon.png'' = ''most/icon''"
    by (simp_all add: pathWithoutExtension_def Ext_def TrimSuffix_def HasSuffix_def)
  have fl: "\<not> versionFlag ?fl" "colorsFileFlag ?fl = []" "colorDefsFlag ?fl = noColorDefs"
    "\<not> iosFlag ?fl" "scaleFlag ?fl = 1"
    "\<not> versionFlag ?ios" "colorsFileFlag ?ios = []" "colorDefsFlag ?ios = noColorDefs"
    "iosFlag ?ios" "scaleFlag ?ios = 1"
    by (simp_all add: defaults_def faulty_eval)
  have rd: "ReadFile faultyEnv ''nocolors.xml'' = Inl ''open nocolors.xml: no such file or directory''"
    "ReadFile faultyEnv ''missing.xml'' = Inl ''open missing.xml: no such file or directory''"
    "ReadFile faultyEnv ''icon.xml'' = Inr ''icon''"
    "ReadFile faultyEnv ''notes.txt'' = Inr ''notes''"
    "ReadFile faultyEnv ''shape.xml'' = Inr ''shape''"
    "ReadFile faultyEnv ''px.xml'' = Inr ''px''"
    "ReadFile faultyEnv ''tall.xml'' = Inr ''tall''"
    "ReadFile faultyEnv ''tint.xml'' = Inr ''tint''"
    "ReadFile faultyEnv ''stroke.xml'' = Inr ''stroke''"
    by (simp_all add: faulty_eval)
  have um: "UnmarshalColors faultyEnv ''icon'' = Inl ''EOF''"
    "UnmarshalVector faultyEnv ''notes'' = Inl ''EOF''"
    "UnmarshalVector faultyEnv ''icon'' = Inr iconVector"
    "UnmarshalVector faultyEnv ''shape'' = Inr shapeVector"
    "UnmarshalVector faultyEnv ''px'' = Inr pxVector"
    "UnmarshalVector faultyEnv ''tall'' = Inr tallVector"
    "UnmarshalVector faultyEnv ''tint'' = Inr tintVector"
    "UnmarshalVector faultyEnv ''stroke'' = Inr strokeVector"
    by (simp_all add: faulty_eval exampleUnmarshalColors_def)
  have root: "XMLName_Local shapeVector \<noteq> ''vector''" "XMLName_Local iconVector = ''vector''"
    "XMLName_Local pxVector = ''vector''" "XMLName_Local tallVector = ''vector''"
    "XMLName_Local tintVector = ''vector''" "XMLName_Local strokeVector = ''vector''"
    by (simp_all add: faulty_eval)
  have wr: "renderers_Write faultyEnv ''ro/icon.png'' iconCanvas 1 = Some ''permission denied''"
    "renderers_Write faultyEnv ''half/icon.png'' iconCanvas 1 = None"
    "renderers_Write faultyEnv ''half/icon@2x.png'' iconCanvas 2 = Some ''permission denied''"
    "renderers_Write faultyEnv ''most/icon.png'' iconCanvas 1 = None"
    "renderers_Write faultyEnv ''most/icon@2x.png'' iconCanvas 2 = None"
    "renderers_Write faultyEnv ''most/icon@3x.png'' iconCanvas 3 = Some ''permission denied''"
    by (simp_all add: faulty_eval)
  have ar: "fmul faultyEnv (float64 faultyEnv 2) 1 = 2" "fmul faultyEnv (float64 faultyEnv 3) 1 = 3"
    by (simp_all add: faulty_eval)
  have dp: "parseDpNum (Width pxVector) ''width'' = Inl (InvalidDimension ''width'' ''24px'')"
    "parseDpNum (Width tallVector) ''width'' = Inr 24"
    "parseDpNum (Height tallVector) ''height'' = Inl (InvalidDimension ''height'' ''tall'')"
    "parseDpNum (Width tintVector) ''width'' = Inr 24"
    "parseDpNum (Height tintVector) ''height'' = Inr 48"
    "parseDpNum (Width strokeVector) ''width'' = Inr 24"
    "parseDpNum (Height strokeVector) ''height'' = Inr 48"
    by (simp_all add: faulty_eval dp_eval)
  let ?g = "\<lparr>FillColor = ''#F00'', StrokeColor = ''#00F'', StrokeWidth = 1::real,
             PathData = ''M0,0 L1,0 L1,1 L0,1 z''\<rparr>"
  let ?t = "\<lparr>FillColor = ''@color/accent'', StrokeColor = [], StrokeWidth = 0::real,
             PathData = ''M2,2 L3,3''\<rparr>"
  let ?s = "\<lparr>FillColor = ''#F00'', StrokeColor = ''#12345'', StrokeWidth = 1::real,
             PathData = ''M0,0 L1,0 L1,1 L0,1 z''\<rparr>"
  have col: "parseColor ''#F00'' noColorDefs = Inr \<lparr>R = 255, G = 0, B = 0, A = 255\<rparr>"
    "parseColor ''#00F'' noColorDefs = Inr \<lparr>R = 0, G = 0, B = 255, A = 255\<rparr>"
    "parseColor ''@color/accent'' noColorDefs = Inl (InvalidColor ''@color/accent'')"
    "parseColor ''#12345'' noColorDefs = Inl (InvalidColor ''#12345'')"
    by (simp_all add: color_eval)
  have pd: "ParseSVGPath faultyEnv ''M0,0 L1,0 L1,1 L0,1 z'' = Inr ''M0,0 L1,0 L1,1 L0,1 z''"
    "ParseSVGPath faultyEnv ''M2,2 L3,3'' = Inr ''M2,2 L3,3''"
    by (simp_all add: faulty_eval)
  have ps: "Paths tintVector = [?g] @ ?t # []" "Paths strokeVector = [] @ ?s # []"
    by (simp_all add: faulty_eval)
  note oe_exit = own_errors_exit_1 [THEN conjunct1]
  note oe_missing = own_errors_exit_1 [THEN conjunct2, THEN conjunct1, rule_format]
  note oe_conv = own_errors_exit_1 [THEN conjunct2, THEN conjunct2, THEN conjunct1, rule_format]
  note oe_colors_read = oe_conv [THEN conjunct1, rule_format]
  note oe_colors_parse = oe_conv [THEN conjunct2, THEN conjunct1, rule_format]
  note oe_tab = oe_conv [THEN conjunct2, THEN conjunct2, rule_format]
  note oe_read = oe_tab [THEN conjunct1, rule_format]
  note oe_parse = oe_tab [THEN conjunct2, THEN conjunct1, rule_format]
  note oe_vec = oe_tab [THEN conjunct2, THEN conjunct2, rule_format]
  note oe_root = oe_vec [THEN conjunct1, rule_format]
  note oe_render = oe_vec [THEN conjunct2, THEN conjunct1, rule_format]
  note oe_canvas = oe_vec [THEN conjunct2, THEN conjunct2, rule_format]
  note oe_write1 = oe_canvas [THEN conjunct1, rule_format]
  note oe_ios = oe_canvas [THEN conjunct2, rule_format]
  note oe_write2 = oe_ios [THEN conjunct1, rule_format]
  note oe_write3 = oe_ios [THEN conjunct2, rule_format]
  note oe_width = own_errors_exit_1 [THEN conjunct2, THEN conjunct2, THEN conjunct2,
      THEN conjunct1, rule_format]
  note oe_height = own_errors_exit_1 [THEN conjunct2, THEN conjunct2, THEN conjunct2,
      THEN conjunct2, THEN conjunct1, rule_format]
  note oe_color = own_errors_exit_1 [THEN conjunct2, THEN conjunct2, THEN conjunct2,
      THEN conjunct2, THEN conjunct2, THEN conjunct1, rule_format]
  note oe_flag = own_errors_exit_1 [THEN conjunct2, THEN conjunct2, THEN conjunct2,
      THEN conjunct2, THEN conjunct2, THEN conjunct2, rule_format]
  have r_px: "renderVector faultyEnv pxVector noColorDefs
      = Returned (Inl (InvalidDimension ''width'' ''24px''))"
    by (rule oe_width) (rule dp)
  have r_tall: "renderVector faultyEnv tallVector noColorDefs
      = Returned (Inl (InvalidDimension ''height'' ''tall''))"
    by (rule oe_height [where width = 24]) (simp add: dp)
  have r_tint: "renderVector faultyEnv tintVector noColorDefs
      = Returned (Inl (InvalidColor ''@color/accent''))"
    by (rule oe_color [where width = 24 and height = 48 and good = "[?g]" and pathElem = ?t
          and rest = "[]" and path = "''M2,2 L3,3''" and fill = "\<lparr>R = 0, G = 0, B = 0, A = 0\<rparr>"])
       (simp add: dp col pd ps)
  have r_stroke: "renderVector faultyEnv strokeVector noColorDefs
      = Returned (Inl (InvalidColor ''#12345''))"
    by (rule oe_color [where width = 24 and height = 48 and good = "[]" and pathElem = ?s
          and rest = "[]" and path = "''M0,0 L1,0 L1,1 L0,1 z''"
          and fill = "\<lparr>R = 255, G = 0, B = 0, A = 255\<rparr>"])
       (simp add: dp col pd ps)
  have 1: "main faultyEnv ?fl []
     = Some (Exited 1 (''ERROR: Input vector image parameter is missing'' @ newline @ usage faultyEnv) [])"
    by (rule oe_missing) (simp add: fl)
  have 2: "main faultyEnv ((defaults faultyEnv)\<lparr>colorsFileFlag := ''nocolors.xml''\<rparr>) [''icon.xml'']
       = Some (errorExit ''Cannot read colors file''
            (Some ''open nocolors.xml: no such file or directory'') [])"
    by (rule oe_colors_read [where vectorFile = "''icon.xml''" and pngFile = "''icon.png''"])
       (simp_all add: defaults_def rd os stem)
  have 3: "main faultyEnv ((defaults faultyEnv)\<lparr>colorsFileFlag := ''icon.xml''\<rparr>) [''icon.xml'']
       = Some (errorExit ''Cannot parse colors file'' (Some ''EOF'') [])"
    by (rule oe_colors_parse [where vectorFile = "''icon.xml''" and pngFile = "''icon.png''"
          and colorsData = "''icon''"])
       (simp_all add: defaults_def rd um os stem)
  have 4: "main faultyEnv ?fl [''missing.xml'']
       = Some (errorExit ''Cannot read vector file''
            (Some ''open missing.xml: no such file or directory'') [])"
    by (rule oe_read [where vectorFile = "''missing.xml''" and pngFile = "''missing.png''"
          and colorDefs = noColorDefs])
       (simp_all add: fl rd os stem)
  have 5: "main faultyEnv ?fl [''notes.txt'']
       = Some (errorExit ''Cannot parse vector file'' (Some ''EOF'') [])"
    by (rule oe_parse [where vectorFile = "''notes.txt''" and pngFile = "''notes.png''"
          and colorDefs = noColorDefs and xmlData = "''notes''"])
       (simp_all add: fl rd um os stem)
  have 6: "main faultyEnv ?fl [''shape.xml'']
       = Some (errorExit ''Not a valid Android vector drawable'' None [])"
    by (rule oe_root [where vectorFile = "''shape.xml''" and pngFile = "''shape.png''"
          and colorDefs = noColorDefs and xmlData = "''shape''" and vec = shapeVector])
       (simp_all add: fl rd um os stem root)
  have 7: "main faultyEnv ?fl [''px.xml'']
       = Some (errorExit ''Cannot render vector file''
            (Some (errorMessage (InvalidDimension ''width'' ''24px''))) [])"
    by (rule oe_render [where vectorFile = "''px.xml''" and pngFile = "''px.png''"
          and colorDefs = noColorDefs and xmlData = "''px''" and vec = pxVector])
       (simp_all add: fl rd um os stem root r_px)
  have 8: "main faultyEnv ?fl [''tall.xml'']
       = Some (errorExit ''Cannot render vector file''
            (Some (errorMessage (InvalidDimension ''height'' ''tall''))) [])"
    by (rule oe_render [where vectorFile = "''tall.xml''" and pngFile = "''tall.png''"
          and colorDefs = noColorDefs and xmlData = "''tall''" and vec = tallVector])
       (simp_all add: fl rd um os stem root r_tall)
  have 9: "main faultyEnv ?fl [''tint.xml'']
       = Some (errorExit ''Cannot render vector file''
            (Some (errorMessage (InvalidColor ''@color/accent''))) [])"
    by (rule oe_render [where vectorFile = "''tint.xml''" and pngFile = "''tint.png''"
          and colorDefs = noColorDefs and xmlData = "''tint''" and vec = tintVector])
       (simp_all add: fl rd um os stem root r_tint)
  have 10: "main faultyEnv ?fl [''stroke.xml'']
       = Some (errorExit ''Cannot render vector file''
            (Some (errorMessage (InvalidColor ''#12345''))) [])"
    by (rule oe_render [where vectorFile = "''stroke.xml''" and pngFile = "''stroke.png''"
          and colorDefs = noColorDefs and xmlData = "''stroke''" and vec = strokeVector])
       (simp_all add: fl rd um os stem root r_stroke)
  have 11: "main faultyEnv ?fl [''icon.xml'', ''ro/icon.png'']
       = Some (errorExit (''Cannot save PNG data to '' @ quoted ''ro/icon.png'')
            (Some ''permission denied'') [])"
    by (rule oe_write1 [where vectorFile = "''icon.xml''" and colorDefs = noColorDefs
          and xmlData = "''icon''" and vec = iconVector and c = iconCanvas])
       (simp_all add: fl rd um root faulty_render_icon wr)
  have 12: "main faultyEnv ?ios [''icon.xml'', ''half/icon.png'']
       = Some (errorExit (''Cannot save PNG data to '' @ quoted ''half/icon@2x.png'')
            (Some ''permission denied'') [(''half/icon.png'', iconCanvas, 1)])"
    using oe_write2 [where env = faultyEnv and fl = ?ios and args = "[''icon.xml'', ''half/icon.png'']"
          and vectorFile = "''icon.xml''" and pngFile = "''half/icon.png''"
          and colorDefs = noColorDefs and xmlData = "''icon''" and vec = iconVector
          and c = iconCanvas and ?e7.0 = "''permission denied''"]
    by (simp add: fl rd um root faulty_render_icon wr os stem ar)
  have 13: "main faultyEnv ?ios [''icon.xml'', ''most/icon.png'']
       = Some (errorExit (''Cannot save PNG data to '' @ quoted ''most/icon@3x.png'')
            (Some ''permission denied'')
            [(''most/icon.png'', iconCanvas, 1), (''most/icon@2x.png'', iconCanvas, 2)])"
    using oe_write3 [where env = faultyEnv and fl = ?ios and args = "[''icon.xml'', ''most/icon.png'']"
          and vectorFile = "''icon.xml''" and pngFile = "''most/icon.png''"
          and colorDefs = noColorDefs and xmlData = "''icon''" and vec = iconVector
          and c = iconCanvas and ?e8.0 = "''permission denied''"]
    by (simp add: fl rd um root faulty_render_icon wr os stem ar)
  have 14: "Parse faultyEnv [''-scale'', ''big'', ''icon.xml''] (defaults faultyEnv)
       = Inl (InvalidFlagValue ''big'' ''scale'')"
    by (simp add: flag_eval faulty_eval)
  have 15: "run faultyEnv [''-scale'', ''big'', ''icon.xml''] = Some (Exited 2 (usage faultyEnv) [])"
    using oe_flag [OF 14] by simp
  show ?thesis
    unfolding 1 2 3 4 5 6 7 8 9 10 11 12 13 14 15 by (simp add: oe_exit quoted_def)
qed

section \<open>Properties of the command line\<close>

lemma splitFlagValue_x: "splitFlagValue ''x'' = (''x'', None)" "splitFlagValue ''y'' = (''y'', None)"
  by (simp_all add: splitFlagValue_def)

text \<open>
  Claim C7 says that the command line declares the flags \<open>-x\<close> and \<open>-y\<close> and accepts them.
  The README lists them, but \<open>main\<close> declares only \<open>-color\<close>, \<open>-colors\<close>, \<open>-scale\<close>, \<open>-ios\<close>
  and \<open>-version\<close>: \<open>flag.Parse\<close> rejects \<open>-x\<close> and \<open>-y\<close> as not defined, and the run ends with
  the usage text and status 2, whatever follows on the command line.
\<close>

theorem translation_flags_not_defined:
  "map_of formal ''x'' = None \<and> map_of formal ''y'' = None
   \<and> Parse env (''-x'' # rest) fl = Inl (FlagNotDefined ''x'')
   \<and> Parse env (''-y'' # rest) fl = Inl (FlagNotDefined ''y'')
   \<and> run env (''-x'' # rest) = Some (Exited 2 (usage env) [])
   \<and> run env (''-y'' # rest) = Some (Exited 2 (usage env) [])"
proof -
  have f: "map_of formal ''x'' = None" "map_of formal ''y'' = None" by (simp_all add: formal_def)
  have px: "Parse env (''-x'' # rest) fl = Inl (FlagNotDefined ''x'')" for fl
    by (simp add: splitFlagValue_x f)
  have py: "Parse env (''-y'' # rest) fl = Inl (FlagNotDefined ''y'')" for fl
    by (simp add: splitFlagValue_x f)
  from f px py show ?thesis by (simp add: run_def)
qed

theorem translation_flags_not_defined_witness:
  "run exampleEnv [''-x'', ''5'', ''icon.xml''] = Some (Exited 2 (usage exampleEnv) [])
   \<and> run exampleEnv [''-y'', ''5'', ''icon.xml''] = Some (Exited 2 (usage exampleEnv) [])"
  using translation_flags_not_defined [of exampleEnv "[''5'', ''icon.xml'']"] by simp

end
